theory Spec2Isabelle
  imports Complex_Main "HOL-Library.Sublist" "HOL-Library.Word"
begin

section \<open>Strings\<close>

text \<open>
  A Python \<open>str\<close> is a sequence of Unicode code points and \<open>len\<close> counts code points.
  The texts of this program are Russian, outside the 8-bit \<open>char\<close> of HOL, so a string is
  a list of code points. ASCII literals are written through \<open>ascii\<close>.
\<close>

type_synonym str = "nat list"

definition ascii :: "string \<Rightarrow> str" where
  "ascii s = map of_char s"

text \<open>
  \<open>str.lower()\<close>, on the Basic Latin block and on the Cyrillic block U+0400..U+045F (the
  alphabets of the keyword lists and of the dialogue): A..Z and U+0410..U+042F move up by
  32, U+0400..U+040F move up by 80. Code points outside these two blocks are left as they
  are.
\<close>

definition lower_cp :: "nat \<Rightarrow> nat" where
  "lower_cp c =
     (if 65 \<le> c \<and> c \<le> 90 then c + 32
      else if 1040 \<le> c \<and> c \<le> 1071 then c + 32
      else if 1024 \<le> c \<and> c \<le> 1039 then c + 80
      else c)"

definition str_lower :: "str \<Rightarrow> str" where
  "str_lower s = map lower_cp s"

text \<open>\<open>word in text\<close> on strings: \<open>word\<close> occurs in \<open>text\<close> as a contiguous substring.\<close>

fun str_in :: "str \<Rightarrow> str \<Rightarrow> bool" where
  "str_in w [] = (w = [])"
| "str_in w (c # s) = (prefix w (c # s) \<or> str_in w s)"

section \<open>Dialogue generation adapter: intent classification\<close>

text \<open>The dictionary returned by \<open>analyze_response\<close>, with its two keys.\<close>

record analysis =
  intent :: string
  confidence :: real

text \<open>
  The three keyword lists of \<open>GigaChatClient.analyze_response\<close>, in the source's order.
  In Latin transliteration: da, soglasen, prinimayu, gotov, khorosho, ladno, okey,
  konechno; net, ne mogu, otkazyvayus', zanyat, ne gotov, ne interesuet; chto, kakoy,
  kogda, gde, skol'ko, pochemu, kak.
\<close>

definition positive_words :: "str list" where
  "positive_words =
     [[1076, 1072],
      [1089, 1086, 1075, 1083, 1072, 1089, 1077, 1085],
      [1087, 1088, 1080, 1085, 1080, 1084, 1072, 1102],
      [1075, 1086, 1090, 1086, 1074],
      [1093, 1086, 1088, 1086, 1096, 1086],
      [1083, 1072, 1076, 1085, 1086],
      [1086, 1082, 1077, 1081],
      [1082, 1086, 1085, 1077, 1095, 1085, 1086]]"

definition negative_words :: "str list" where
  "negative_words =
     [[1085, 1077, 1090],
      [1085, 1077, 32, 1084, 1086, 1075, 1091],
      [1086, 1090, 1082, 1072, 1079, 1099, 1074, 1072, 1102, 1089, 1100],
      [1079, 1072, 1085, 1103, 1090],
      [1085, 1077, 32, 1075, 1086, 1090, 1086, 1074],
      [1085, 1077, 32, 1080, 1085, 1090, 1077, 1088, 1077, 1089, 1091, 1077, 1090]]"

definition question_words :: "str list" where
  "question_words =
     [[1095, 1090, 1086],
      [1082, 1072, 1082, 1086, 1081],
      [1082, 1086, 1075, 1076, 1072],
      [1075, 1076, 1077],
      [1089, 1082, 1086, 1083, 1100, 1082, 1086],
      [1087, 1086, 1095, 1077, 1084, 1091],
      [1082, 1072, 1082]]"

definition analyze_response :: "str \<Rightarrow> analysis" where
  "analyze_response response =
     (let response_lower = str_lower response;
          is_positive = list_ex (\<lambda>word. str_in word response_lower) positive_words;
          is_negative = list_ex (\<lambda>word. str_in word response_lower) negative_words;
          is_question = (list_ex (\<lambda>word. str_in word response_lower) question_words
                         \<or> str_in (ascii ''?'') response)
      in if is_question then \<lparr>intent = ''question'', confidence = 0.8\<rparr>
         else if is_positive \<and> \<not> is_negative then \<lparr>intent = ''accept'', confidence = 0.9\<rparr>
         else if is_negative \<and> \<not> is_positive then \<lparr>intent = ''decline'', confidence = 0.9\<rparr>
         else \<lparr>intent = ''unclear'', confidence = 0.5\<rparr>)"

section \<open>Data model\<close>

text \<open>
  Values of the dictionaries the program passes around (\<open>order_info\<close>, \<open>executor_info\<close>,
  \<open>custom_data\<close>): a text or \<open>None\<close>. \<open>dict_get\<close> is \<open>dict.get(key, default)\<close>,
  \<open>format_val\<close> is the rendering of a value inside an f-string, \<open>truthy\<close> its truth value.
\<close>

datatype pyval = PyNone | PyStr str

type_synonym pydict = "string \<rightharpoonup> pyval"

definition dict_get :: "pydict \<Rightarrow> string \<Rightarrow> pyval \<Rightarrow> pyval" where
  "dict_get d k dflt = (case d k of None \<Rightarrow> dflt | Some v \<Rightarrow> v)"

fun format_val :: "pyval \<Rightarrow> str" where
  "format_val PyNone = ascii ''None''"
| "format_val (PyStr s) = s"

fun truthy :: "pyval \<Rightarrow> bool" where
  "truthy PyNone = False"
| "truthy (PyStr s) = (s \<noteq> [])"

type_synonym bytes = "8 word list"

text \<open>A \<open>datetime\<close>, in microseconds since the epoch.\<close>

type_synonym timestamp = int

datatype CallResult = ACCEPTED | DECLINED | NO_ANSWER | ERROR | IN_PROGRESS

text \<open>The \<open>.value\<close> of a \<open>CallResult\<close>.\<close>

fun CallResult_value :: "CallResult \<Rightarrow> string" where
  "CallResult_value ACCEPTED = ''accepted''"
| "CallResult_value DECLINED = ''declined''"
| "CallResult_value NO_ANSWER = ''no_answer''"
| "CallResult_value ERROR = ''error''"
| "CallResult_value IN_PROGRESS = ''in_progress''"

record OrderInfo =
  order_id :: str
  description :: str
  address :: str
  datetime :: str
  payment :: str
  additional_info :: "str option"
  required_skills :: "str list"

record ExecutorInfo =
  executor_id :: str
  name :: str
  phone_number :: str
  skills :: "str list"
  rating :: real
  is_available :: bool

text \<open>
  \<open>CallInfo\<close>. Its fields \<open>phone_number\<close>, \<open>executor_id\<close> and \<open>result\<close> carry the prefix
  \<open>call_\<close> here, to keep them apart from those of \<open>ExecutorInfo\<close> and \<open>CallSession\<close>.
\<close>

record CallInfo =
  call_id :: str
  call_phone_number :: str
  call_executor_id :: str
  executor_name :: str
  status :: string
  started_at :: "timestamp option"
  ended_at :: "timestamp option"
  duration_seconds :: int
  call_result :: "string option"

record DialogueMessage =
  role :: string
  content :: str

record DialogueContext =
  messages :: "DialogueMessage list"
  order_info :: "pydict option"
  executor_info :: "pydict option"
  knowledge_context :: "str option"

record KnowledgeDocument =
  doc_id :: str
  doc_content :: str
  metadata :: "(string \<times> pyval) list"
  score :: real

text \<open>
  \<open>CallSession\<close>. The \<open>CallInfo\<close> object of a session is the very object that the telephony
  client keeps in \<open>_active_calls\<close> under the call id: \<open>start_call\<close> stores it there and
  \<open>call_executor\<close> files the session under the same id, and a later call that is given the
  same id replaces both entries. The object lives once, in \<open>active_calls\<close>, and the session
  refers to it by its call id.
\<close>

record CallSession =
  call_info :: str
  executor :: ExecutorInfo
  order :: OrderInfo
  dialogue_context :: DialogueContext
  result :: CallResult
  turn_count :: int

text \<open>The settings the modelled methods read: of \<open>VoximplantConfig\<close> and of \<open>Config\<close>.\<close>

record VoximplantConfig =
  rule_id :: "int option"
  sms_source_number :: "str option"

record Config =
  voximplant :: VoximplantConfig
  agent_name :: str
  company_name :: str
  max_dialogue_turns :: int

text \<open>
  The registered completion callback is a Python callable from outside the program. It is
  a handle here. Calling it is recorded; it either returns or raises, and it is taken to
  leave the session as it is.
\<close>

type_synonym callback = nat

section \<open>The backends\<close>

text \<open>
  The vendor services are outside the program. What they answer during one operation is an
  input of the model: a call made inside a \<open>try\<close> block either raises or returns.
\<close>

datatype 'a outcome = Raised | Returned 'a

text \<open>
  How \<open>QdrantKnowledgeBase._initialize\<close> ends when it has work to do: the import fails, the
  constructor of the client raises, listing or creating the collection raises (the client
  object is stored by then), or all of it succeeds.
\<close>

datatype kb_init_outcome = KbImportError | KbClientError | KbCollectionError | KbReady

text \<open>
  How the chat request of \<open>generate_response\<close> ends: it raises, it returns no choice, or it
  returns the content of the first choice.
\<close>

datatype chat_outcome = ChatRaised | NoChoices | Choice str

text \<open>
  \<^item> \<open>kb_init\<close>, \<open>vox_init\<close>: how an initialisation attempt of the retrieval and of the
    telephony client ends;
  \<^item> \<open>search_backend query limit\<close>: the documents built from the answer of the vector
    search, unless the search or the conversion raises;
  \<^item> \<open>start_scenarios executor order_info custom_data\<close>: the text
    \<open>str(response.get("result", {}).get("session_id", ""))\<close>, unless the request raises;
  \<^item> \<open>send_sms_message source destination body\<close>: the number
    \<open>response.get("result", 0)\<close>, unless the request raises;
  \<^item> \<open>clock\<close>: what \<open>datetime.now()\<close> returns, and \<open>clock_text\<close>: how its
    \<open>timestamp()\<close> prints;
  \<^item> \<open>gigachat_new\<close>: whether the constructor of the chat client returns;
  \<^item> \<open>chat\<close>: the answer to a chat request;
  \<^item> \<open>speech_to_text\<close>, \<open>text_to_speech\<close>: the results of the speech adapter, which
    catches every exception and returns \<open>None\<close> on failure;
  \<^item> \<open>callback_returns cb session\<close>: whether the registered completion callback
    \<open>cb\<close>, called with the session, returns; otherwise it raises.
\<close>

record backends =
  kb_init :: kb_init_outcome
  search_backend :: "str \<Rightarrow> int \<Rightarrow> KnowledgeDocument list outcome"
  vox_init :: bool
  start_scenarios :: "ExecutorInfo \<Rightarrow> pydict \<Rightarrow> pydict \<Rightarrow> str outcome"
  send_sms_message :: "str \<Rightarrow> str \<Rightarrow> str \<Rightarrow> int outcome"
  clock :: timestamp
  clock_text :: str
  gigachat_new :: bool
  chat :: "DialogueContext \<Rightarrow> chat_outcome"
  speech_to_text :: "bytes \<Rightarrow> str option"
  text_to_speech :: "str \<Rightarrow> bytes option"
  callback_returns :: "callback \<Rightarrow> CallSession \<Rightarrow> bool"

section \<open>Telephony adapter\<close>

record VoximplantClient =
  vox_config :: VoximplantConfig
  vox_api :: bool
  vox_initialized :: bool
  active_calls :: "str \<rightharpoonup> CallInfo"

text \<open>\<open>VoximplantClient._initialize\<close>; \<open>vox_api\<close> tells whether \<open>_api\<close> is an object.\<close>

definition vox_initialize :: "backends \<Rightarrow> VoximplantClient \<Rightarrow> VoximplantClient" where
  "vox_initialize w tel =
     (if vox_initialized tel then tel
      else if vox_init w then tel\<lparr>vox_api := True, vox_initialized := True\<rparr>
      else tel)"

definition start_call ::
  "VoximplantClient \<Rightarrow> backends \<Rightarrow> ExecutorInfo \<Rightarrow> pydict \<Rightarrow> pydict
     \<Rightarrow> VoximplantClient \<times> CallInfo option" where
  "start_call tel0 w ex order_dict custom_data =
     (let tel = vox_initialize w tel0
      in if \<not> vox_api tel then (tel, None)
         else if rule_id (vox_config tel) = None \<or> rule_id (vox_config tel) = Some 0
           then (tel, None)
         else (case start_scenarios w ex order_dict custom_data of
                 Raised \<Rightarrow> (tel, None)
               | Returned session_id \<Rightarrow>
                   (let cid = (if session_id = [] then ascii ''call_'' @ clock_text w
                               else session_id);
                        ci = \<lparr>call_id = cid,
                              call_phone_number = phone_number ex,
                              call_executor_id = executor_id ex,
                              executor_name = name ex,
                              status = ''initiated'',
                              started_at = Some (clock w),
                              ended_at = None,
                              duration_seconds = 0,
                              call_result = None\<rparr>
                    in (tel\<lparr>active_calls := (active_calls tel)(cid \<mapsto> ci)\<rparr>,
                        Some ci))))"

text \<open>
  \<open>int(delta.total_seconds())\<close> for a difference of \<open>d\<close> microseconds: the whole seconds,
  rounded towards zero.
\<close>

definition whole_seconds :: "int \<Rightarrow> int" where
  "whole_seconds d = (if 0 \<le> d then d div 1000000 else - ((- d) div 1000000))"

definition end_call ::
  "VoximplantClient \<Rightarrow> backends \<Rightarrow> str \<Rightarrow> string \<Rightarrow> VoximplantClient \<times> bool" where
  "end_call tel w cid res =
     (case active_calls tel cid of
        None \<Rightarrow> (tel, False)
      | Some ci0 \<Rightarrow>
          (let ci = ci0\<lparr>status := ''ended'', ended_at := Some (clock w),
                         call_result := Some res\<rparr>;
               ci' = (case started_at ci of
                        None \<Rightarrow> ci
                      | Some t \<Rightarrow> ci\<lparr>duration_seconds := whole_seconds (clock w - t)\<rparr>)
           in (tel\<lparr>active_calls := (active_calls tel)(cid \<mapsto> ci')\<rparr>, True)))"

definition send_sms ::
  "VoximplantClient \<Rightarrow> backends \<Rightarrow> str \<Rightarrow> str \<Rightarrow> VoximplantClient \<times> bool" where
  "send_sms tel0 w phone message =
     (let tel = vox_initialize w tel0
      in if \<not> vox_api tel then (tel, False)
         else (case sms_source_number (vox_config tel) of
                 None \<Rightarrow> (tel, False)
               | Some source \<Rightarrow>
                   if source = [] then (tel, False)
                   else (case send_sms_message w source phone message of
                           Raised \<Rightarrow> (tel, False)
                         | Returned n \<Rightarrow> (tel, 0 < n))))"

section \<open>Retrieval adapter\<close>

record QdrantKnowledgeBase =
  kb_client :: bool
  kb_initialized :: bool

definition kb_initialize :: "backends \<Rightarrow> QdrantKnowledgeBase \<Rightarrow> QdrantKnowledgeBase" where
  "kb_initialize w kb =
     (if kb_initialized kb then kb
      else (case kb_init w of
              KbImportError \<Rightarrow> kb
            | KbClientError \<Rightarrow> kb
            | KbCollectionError \<Rightarrow> kb\<lparr>kb_client := True\<rparr>
            | KbReady \<Rightarrow> kb\<lparr>kb_client := True, kb_initialized := True\<rparr>))"

definition search ::
  "QdrantKnowledgeBase \<Rightarrow> backends \<Rightarrow> str \<Rightarrow> int
     \<Rightarrow> QdrantKnowledgeBase \<times> KnowledgeDocument list" where
  "search kb0 w query limit =
     (let kb = kb_initialize w kb0
      in if \<not> kb_client kb then (kb, [])
         else (case search_backend w query limit of
                 Raised \<Rightarrow> (kb, [])
               | Returned documents \<Rightarrow> (kb, documents)))"

text \<open>\<open>sep.join(parts)\<close>.\<close>

fun str_join :: "str \<Rightarrow> str list \<Rightarrow> str" where
  "str_join sep [] = []"
| "str_join sep [p] = p"
| "str_join sep (p # q # ps) = p @ sep @ str_join sep (q # ps)"

text \<open>
  The loop of \<open>get_context_for_query\<close> over the documents, with its two variables
  \<open>context_parts\<close> and \<open>current_length\<close>; the \<open>break\<close> ends the recursion.
\<close>

fun combine_contents ::
  "int \<Rightarrow> str list \<Rightarrow> int \<Rightarrow> KnowledgeDocument list \<Rightarrow> str list" where
  "combine_contents max_context_length context_parts current_length [] = context_parts"
| "combine_contents max_context_length context_parts current_length (doc # documents) =
     (let text = doc_content doc
      in if current_length + int (length text) > max_context_length then
           (let remaining = max_context_length - current_length
            in if remaining > 100
               then context_parts @ [take (nat remaining) text @ ascii ''...'']
               else context_parts)
         else combine_contents max_context_length (context_parts @ [text])
                (current_length + int (length text)) documents)"

definition get_context_for_query ::
  "QdrantKnowledgeBase \<Rightarrow> backends \<Rightarrow> str \<Rightarrow> int \<Rightarrow> QdrantKnowledgeBase \<times> str" where
  "get_context_for_query kb0 w query max_context_length =
     (let (kb, documents) = search kb0 w query 5
      in if documents = [] then (kb, [])
         else (kb, str_join [10, 10] (combine_contents max_context_length [] 0 documents)))"

section \<open>The fixed texts\<close>

text \<open>
  The Russian literals of the source, as code points: the reply to an unknown session
  ("Sessiya ne naydena"), the pieces of the three closing replies, of the confirmation SMS
  and of the greeting, and the two fallback replies of \<open>generate_response\<close>. A literal that
  an f-string interrupts is cut at the interpolated value.
\<close>

definition session_not_found_text :: str where
  "session_not_found_text =
     [1057, 1077, 1089, 1089, 1080, 1103, 32, 1085, 1077, 32, 1085, 1072, 1081,
      1076, 1077, 1085, 1072]"

definition accept_reply_head :: str where
  "accept_reply_head =
     [1054, 1090, 1083, 1080, 1095, 1085, 1086, 44, 32]"

definition accept_reply_tail :: str where
  "accept_reply_tail =
     [33, 32, 1047, 1072, 1082, 1072, 1079, 32, 1079, 1072, 1082, 1088, 1077, 1087,
      1083, 1105, 1085, 32, 1079, 1072, 32, 1074, 1072, 1084, 1080, 46, 32, 1044,
      1077, 1090, 1072, 1083, 1080, 32, 1087, 1088, 1080, 1076, 1091, 1090, 32,
      1074, 32, 83, 77, 83, 46, 32, 1057, 1087, 1072, 1089, 1080, 1073, 1086, 32,
      1080, 32, 1093, 1086, 1088, 1086, 1096, 1077, 1075, 1086, 32, 1076, 1085,
      1103, 33]"

definition decline_reply_head :: str where
  "decline_reply_head =
     [1055, 1086, 1085, 1080, 1084, 1072, 1102, 44, 32]"

definition decline_reply_tail :: str where
  "decline_reply_tail =
     [46, 32, 1057, 1087, 1072, 1089, 1080, 1073, 1086, 32, 1079, 1072, 32, 1086,
      1090, 1074, 1077, 1090, 46, 32, 1045, 1089, 1083, 1080, 32, 1087, 1077, 1088,
      1077, 1076, 1091, 1084, 1072, 1077, 1090, 1077, 44, 32, 1084, 1099, 32, 1085,
      1072, 32, 1089, 1074, 1103, 1079, 1080, 46, 32, 1061, 1086, 1088, 1086, 1096,
      1077, 1075, 1086, 32, 1076, 1085, 1103, 33]"

definition closing_reply :: str where
  "closing_reply =
     [1050, 32, 1089, 1086, 1078, 1072, 1083, 1077, 1085, 1080, 1102, 44, 32, 1085,
      1072, 1084, 32, 1085, 1091, 1078, 1085, 1086, 32, 1079, 1072, 1074, 1077,
      1088, 1096, 1080, 1090, 1100, 32, 1088, 1072, 1079, 1075, 1086, 1074, 1086,
      1088, 46, 32, 1057, 1087, 1072, 1089, 1080, 1073, 1086, 32, 1079, 1072, 32,
      1074, 1072, 1096, 1077, 32, 1074, 1088, 1077, 1084, 1103, 46, 32, 1044, 1086,
      32, 1089, 1074, 1080, 1076, 1072, 1085, 1080, 1103, 33]"

definition sms_order :: str where
  "sms_order =
     [1047, 1072, 1082, 1072, 1079, 32, 35]"

definition sms_assigned :: str where
  "sms_assigned =
     [32, 1079, 1072, 1082, 1088, 1077, 1087, 1083, 1105, 1085, 32, 1079, 1072, 32,
      1074, 1072, 1084, 1080, 46, 10]"

definition sms_address :: str where
  "sms_address =
     [1040, 1076, 1088, 1077, 1089, 58, 32]"

definition sms_time :: str where
  "sms_time =
     [10, 1042, 1088, 1077, 1084, 1103, 58, 32]"

definition sms_payment :: str where
  "sms_payment =
     [10, 1054, 1087, 1083, 1072, 1090, 1072, 58, 32]"

definition greeting_hello :: str where
  "greeting_hello =
     [1047, 1076, 1088, 1072, 1074, 1089, 1090, 1074, 1091, 1081, 1090, 1077, 44,
      32]"

definition greeting_this_is :: str where
  "greeting_this_is =
     [33, 32, 1069, 1090, 1086, 32]"

definition greeting_company :: str where
  "greeting_company =
     [32, 1080, 1079, 32, 1082, 1086, 1084, 1087, 1072, 1085, 1080, 1080, 32, 34]"

definition greeting_offer :: str where
  "greeting_offer =
     [34, 46, 32, 1059, 32, 1085, 1072, 1089, 32, 1077, 1089, 1090, 1100, 32, 1076,
      1083, 1103, 32, 1074, 1072, 1089, 32, 1079, 1072, 1082, 1072, 1079, 58, 32]"

definition greeting_payment :: str where
  "greeting_payment =
     [32, 1054, 1087, 1083, 1072, 1090, 1072, 58, 32]"

definition greeting_question :: str where
  "greeting_question =
     [32, 1042, 1099, 32, 1075, 1086, 1090, 1086, 1074, 1099, 32, 1087, 1088, 1080,
      1085, 1103, 1090, 1100, 32, 1101, 1090, 1086, 1090, 32, 1079, 1072, 1082,
      1072, 1079, 63]"

definition default_order_description :: str where
  "default_order_description =
     [1079, 1072, 1082, 1072, 1079]"

definition no_choices_reply :: str where
  "no_choices_reply =
     [1048, 1079, 1074, 1080, 1085, 1080, 1090, 1077, 44, 32, 1087, 1088, 1086,
      1080, 1079, 1086, 1096, 1083, 1072, 32, 1086, 1096, 1080, 1073, 1082, 1072,
      46, 32, 1055, 1086, 1078, 1072, 1083, 1091, 1081, 1089, 1090, 1072, 44, 32,
      1087, 1086, 1074, 1090, 1086, 1088, 1080, 1090, 1077, 46]"

definition chat_error_reply :: str where
  "chat_error_reply =
     [1048, 1079, 1074, 1080, 1085, 1080, 1090, 1077, 44, 32, 1087, 1088, 1086,
      1080, 1079, 1086, 1096, 1083, 1072, 32, 1090, 1077, 1093, 1085, 1080, 1095,
      1077, 1089, 1082, 1072, 1103, 32, 1086, 1096, 1080, 1073, 1082, 1072, 46, 32,
      1055, 1086, 1087, 1088, 1086, 1073, 1091, 1081, 1090, 1077, 32, 1087, 1086,
      1079, 1078, 1077, 46]"

section \<open>Dialogue generation adapter: greeting and replies\<close>

text \<open>\<open>GigaChatClient\<close>: \<open>gc_client\<close> tells whether \<open>_client\<close> is an object.\<close>

record GigaChatClient =
  gc_client :: bool

text \<open>
  An exception that leaves the orchestrator: the constructor of the chat client, called by
  \<open>_get_client\<close> outside every \<open>try\<close> block, the completion callback, called outside
  every \<open>try\<close> block as well, and \<open>range\<close> with a step of zero.
\<close>

datatype error = GigaChatError | CallbackError | ValueError

text \<open>\<open>GigaChatClient.generate_initial_greeting\<close>.\<close>

definition gigachat_generate_initial_greeting :: "str \<Rightarrow> str \<Rightarrow> str \<Rightarrow> pydict \<Rightarrow> str" where
  "gigachat_generate_initial_greeting agent company ex_name order_dict =
     (let order_description = dict_get order_dict ''description'' (PyStr default_order_description);
          order_payment = dict_get order_dict ''payment'' (PyStr []);
          greeting = greeting_hello @ ex_name @ greeting_this_is @ agent @ greeting_company
                       @ company @ greeting_offer @ format_val order_description @ ascii ''.'';
          greeting' = (if truthy order_payment
                       then greeting @ greeting_payment @ format_val order_payment @ ascii ''.''
                       else greeting)
      in greeting' @ greeting_question)"

text \<open>
  \<open>GigaChatClient.generate_response\<close>. The prompt and the history go to the backend, whose
  answer \<open>chat w context\<close> is an input; the method turns a raise and an empty answer into
  the two fallback replies.
\<close>

definition generate_response ::
  "GigaChatClient \<Rightarrow> backends \<Rightarrow> DialogueContext \<Rightarrow> GigaChatClient \<times> (error + str)" where
  "generate_response gc w context =
     (if \<not> gc_client gc \<and> \<not> gigachat_new w then (gc, Inl GigaChatError)
      else (let gc' = gc\<lparr>gc_client := True\<rparr>
            in case chat w context of
                 ChatRaised \<Rightarrow> (gc', Inr chat_error_reply)
               | NoChoices \<Rightarrow> (gc', Inr no_choices_reply)
               | Choice reply \<Rightarrow> (gc', Inr reply)))"

section \<open>Session orchestrator\<close>

text \<open>
  The calls the orchestrator makes to the telephony adapter and to the callback, in order:
  \<open>start_call\<close> for an executor, \<open>end_call\<close> with a call id and a result tag, the callback
  with the session, \<open>send_sms\<close> with a number, a text and what it returned.
\<close>

datatype event =
  StartCall ExecutorInfo
| EndCall str string
| Completed callback CallSession
| SendSms str str bool

record AIAgent =
  config :: Config
  gigachat :: GigaChatClient
  telephony :: VoximplantClient
  knowledge_base :: QdrantKnowledgeBase
  active_sessions :: "str \<rightharpoonup> CallSession"
  on_call_completed :: "callback option"
  trace :: "event list"



text \<open>\<open>AIAgent.__init__\<close>.\<close>

definition new_agent :: "Config \<Rightarrow> AIAgent" where
  "new_agent cfg =
     \<lparr>config = cfg,
      gigachat = \<lparr>gc_client = False\<rparr>,
      telephony = \<lparr>vox_config = voximplant cfg, vox_api = False, vox_initialized = False,
                   active_calls = Map.empty\<rparr>,
      knowledge_base = \<lparr>kb_client = False, kb_initialized = False\<rparr>,
      active_sessions = Map.empty,
      on_call_completed = None,
      trace = []\<rparr>"

text \<open>
  \<open>AIAgent.call_executor\<close>. \<open>order_to_dict\<close> is its dictionary \<open>order_dict\<close> and
  \<open>agent_custom_data\<close> the \<open>custom_data\<close> it hands to \<open>start_call\<close>.
\<close>

definition order_to_dict :: "OrderInfo \<Rightarrow> pydict" where
  "order_to_dict ord =
     [''description'' \<mapsto> PyStr (description ord),
      ''address'' \<mapsto> PyStr (address ord),
      ''datetime'' \<mapsto> PyStr (datetime ord),
      ''payment'' \<mapsto> PyStr (payment ord),
      ''additional_info'' \<mapsto> (case additional_info ord of None \<Rightarrow> PyNone | Some s \<Rightarrow> PyStr s)]"

definition agent_custom_data :: "Config \<Rightarrow> pydict" where
  "agent_custom_data cfg =
     [''agent_name'' \<mapsto> PyStr (agent_name cfg), ''company_name'' \<mapsto> PyStr (company_name cfg)]"

definition call_executor ::
  "AIAgent \<Rightarrow> backends \<Rightarrow> ExecutorInfo \<Rightarrow> OrderInfo \<Rightarrow> AIAgent \<times> str option" where
  "call_executor ag w ex ord =
     (let knowledge_query = description ord @ ascii '' ''
                              @ (case additional_info ord of None \<Rightarrow> [] | Some s \<Rightarrow> s);
          (kb, context_text) = get_context_for_query (knowledge_base ag) w knowledge_query 2000;
          order_dict = order_to_dict ord;
          context = \<lparr>messages = [],
                     order_info = Some order_dict,
                     executor_info = Some [''id'' \<mapsto> PyStr (executor_id ex),
                                           ''name'' \<mapsto> PyStr (name ex)],
                     knowledge_context = Some context_text\<rparr>;
          (tel, started) = start_call (telephony ag) w ex order_dict
                             (agent_custom_data (config ag));
          ag1 = ag\<lparr>knowledge_base := kb, telephony := tel, trace := trace ag @ [StartCall ex]\<rparr>
      in case started of
           None \<Rightarrow> (ag1, None)
         | Some ci \<Rightarrow>
             (let session = \<lparr>call_info = call_id ci, executor = ex, order = ord,
                             dialogue_context = context, result = IN_PROGRESS, turn_count = 0\<rparr>
              in (ag1\<lparr>active_sessions := (active_sessions ag1)(call_id ci \<mapsto> session)\<rparr>,
                  Some (call_id ci))))"

text \<open>\<open>session.dialogue_context.messages.append(DialogueMessage(role, content))\<close>.\<close>

definition append_message :: "CallSession \<Rightarrow> string \<Rightarrow> str \<Rightarrow> CallSession" where
  "append_message session r text =
     session\<lparr>dialogue_context := (dialogue_context session)
       \<lparr>messages := messages (dialogue_context session) @ [\<lparr>role = r, content = text\<rparr>]\<rparr>\<rparr>"

text \<open>
  \<open>AIAgent._complete_session\<close>; \<open>confirmation_sms\<close> is its \<open>sms_text\<close>. The second
  component of the result tells whether the method raised: the callback is called with
  no \<open>try\<close> around it, so when it raises, the SMS is not sent and the exception goes on
  to the caller.
\<close>

definition confirmation_sms :: "OrderInfo \<Rightarrow> str" where
  "confirmation_sms ord =
     sms_order @ order_id ord @ sms_assigned @ sms_address @ address ord
       @ sms_time @ datetime ord @ sms_payment @ payment ord"

definition complete_session :: "AIAgent \<Rightarrow> backends \<Rightarrow> str \<Rightarrow> AIAgent \<times> error option" where
  "complete_session ag w session_id =
     (case active_sessions ag session_id of
        None \<Rightarrow> (ag, None)
      | Some session \<Rightarrow>
          (let (tel, ended) = end_call (telephony ag) w session_id
                                (CallResult_value (result session));
               tr = trace ag @ [EndCall session_id (CallResult_value (result session))];
               tr' = (case on_call_completed ag of
                        None \<Rightarrow> tr
                      | Some cb \<Rightarrow> tr @ [Completed cb session]);
               callback_raised = (case on_call_completed ag of
                                    None \<Rightarrow> False
                                  | Some cb \<Rightarrow> \<not> callback_returns w cb session)
           in if callback_raised then (ag\<lparr>telephony := tel, trace := tr'\<rparr>, Some CallbackError)
              else if result session = ACCEPTED then
                (let sms_text = confirmation_sms (order session);
                     (tel', sent) = send_sms tel w (phone_number (executor session)) sms_text
                 in (ag\<lparr>telephony := tel',
                        trace := tr' @ [SendSms (phone_number (executor session)) sms_text sent]\<rparr>,
                     None))
              else (ag\<lparr>telephony := tel, trace := tr'\<rparr>, None)))"

text \<open>
  \<open>AIAgent.process_executor_response\<close>. \<open>heard_text\<close> is the text the turn works with:
  the given text, else the transcription of the given audio, else the empty text. The
  session object is changed in place, so what was done before an exception stays done: the
  result is the agent after the call together with either the exception or the returned
  pair.
\<close>

definition heard_text :: "backends \<Rightarrow> bytes option \<Rightarrow> str option \<Rightarrow> str" where
  "heard_text w audio_data text_response =
     (let text_response1 = (case (audio_data, text_response) of
                              (Some audio, None) \<Rightarrow> speech_to_text w audio
                            | _ \<Rightarrow> text_response)
      in case text_response1 of None \<Rightarrow> [] | Some t \<Rightarrow> t)"

definition process_executor_response ::
  "AIAgent \<Rightarrow> backends \<Rightarrow> str \<Rightarrow> bytes option \<Rightarrow> str option
     \<Rightarrow> AIAgent \<times> (error + str \<times> bytes option)" where
  "process_executor_response ag w session_id audio_data text_response =
     (case active_sessions ag session_id of
        None \<Rightarrow> (ag, Inr (session_not_found_text, None))
      | Some session \<Rightarrow>
          (let text = heard_text w audio_data text_response;
               session1 = (append_message session ''user'' text)
                            \<lparr>turn_count := turn_count session + 1\<rparr>;
               analysis = analyze_response text;
               (gc, decided) =
                 (if intent analysis = ''accept'' then
                    (gigachat ag,
                     Inr (session1\<lparr>result := ACCEPTED\<rparr>,
                          accept_reply_head @ name (executor session1) @ accept_reply_tail))
                  else if intent analysis = ''decline'' then
                    (gigachat ag,
                     Inr (session1\<lparr>result := DECLINED\<rparr>,
                          decline_reply_head @ name (executor session1) @ decline_reply_tail))
                  else if turn_count session1 \<ge> max_dialogue_turns (config ag) then
                    (gigachat ag, Inr (session1\<lparr>result := DECLINED\<rparr>, closing_reply))
                  else (case generate_response (gigachat ag) w (dialogue_context session1) of
                          (gc', Inl e) \<Rightarrow> (gc', Inl e)
                        | (gc', Inr reply) \<Rightarrow> (gc', Inr (session1, reply))))
           in case decided of
                Inl e \<Rightarrow>
                  (ag\<lparr>gigachat := gc,
                      active_sessions := (active_sessions ag)(session_id \<mapsto> session1)\<rparr>, Inl e)
              | Inr (session2, response_text) \<Rightarrow>
                  (let session3 = append_message session2 ''assistant'' response_text;
                       ag1 = ag\<lparr>gigachat := gc,
                                active_sessions := (active_sessions ag)(session_id \<mapsto> session3)\<rparr>;
                       response_audio = text_to_speech w response_text;
                       (ag2, raised) = (if result session3 \<noteq> IN_PROGRESS
                                        then complete_session ag1 w session_id
                                        else (ag1, None))
                   in case raised of
                        Some e \<Rightarrow> (ag2, Inl e)
                      | None \<Rightarrow> (ag2, Inr (response_text, response_audio)))))"

text \<open>\<open>AIAgent.generate_initial_greeting\<close>.\<close>

definition generate_initial_greeting ::
  "AIAgent \<Rightarrow> backends \<Rightarrow> str \<Rightarrow> AIAgent \<times> str \<times> bytes option" where
  "generate_initial_greeting ag w session_id =
     (case active_sessions ag session_id of
        None \<Rightarrow> (ag, session_not_found_text, None)
      | Some session \<Rightarrow>
          (let order_dict = [''description'' \<mapsto> PyStr (description (order session)),
                             ''address'' \<mapsto> PyStr (address (order session)),
                             ''datetime'' \<mapsto> PyStr (datetime (order session)),
                             ''payment'' \<mapsto> PyStr (payment (order session))];
               greeting_text = gigachat_generate_initial_greeting (agent_name (config ag))
                                 (company_name (config ag)) (name (executor session)) order_dict;
               session1 = append_message session ''assistant'' greeting_text;
               greeting_audio = text_to_speech w greeting_text
           in (ag\<lparr>active_sessions := (active_sessions ag)(session_id \<mapsto> session1)\<rparr>,
               greeting_text, greeting_audio)))"









text \<open>
  What the checks below read of a session: its result, its turn counter and the number of
  messages in its history.
\<close>

definition session_view :: "AIAgent \<Rightarrow> str \<Rightarrow> (CallResult \<times> int \<times> nat) option" where
  "session_view ag session_id =
     map_option (\<lambda>s. (result s, turn_count s, length (messages (dialogue_context s))))
       (active_sessions ag session_id)"

section \<open>Concrete inputs\<close>

text \<open>
  A world in which every backend fails, a world in which every backend answers, and the
  order "ORD-1" offered to the executor "E1" ("Ivan") under the default settings with a
  scenario rule and an SMS source number. The concrete checks below start from these. In
  both worlds a registered callback returns.
\<close>

definition quiet_world :: backends where
  "quiet_world =
     \<lparr>kb_init = KbImportError,
      search_backend = (\<lambda>query limit. Raised),
      vox_init = False,
      start_scenarios = (\<lambda>ex order_dict custom_data. Raised),
      send_sms_message = (\<lambda>source destination body. Raised),
      clock = 0,
      clock_text = ascii ''0.0'',
      gigachat_new = False,
      chat = (\<lambda>context. ChatRaised),
      speech_to_text = (\<lambda>audio. None),
      text_to_speech = (\<lambda>text. None),
      callback_returns = (\<lambda>cb session. True)\<rparr>"

definition good_world :: backends where
  "good_world =
     \<lparr>kb_init = KbReady,
      search_backend = (\<lambda>query limit. Returned []),
      vox_init = True,
      start_scenarios = (\<lambda>ex order_dict custom_data. Returned (ascii ''s1'')),
      send_sms_message = (\<lambda>source destination body. Returned 1),
      clock = 5000000,
      clock_text = ascii ''5.0'',
      gigachat_new = True,
      chat = (\<lambda>context. Choice (ascii ''ok'')),
      speech_to_text = (\<lambda>audio. Some (ascii ''ok'')),
      text_to_speech = (\<lambda>text. Some [1, 2, 3]),
      callback_returns = (\<lambda>cb session. True)\<rparr>"

definition example_config :: "int \<Rightarrow> Config" where
  "example_config turns =
     \<lparr>voximplant = \<lparr>rule_id = Some 7, sms_source_number = Some (ascii ''+70000000000'')\<rparr>,
      agent_name = ascii ''AI'',
      company_name = ascii ''Co'',
      max_dialogue_turns = turns\<rparr>"

definition example_executor :: ExecutorInfo where
  "example_executor =
     \<lparr>executor_id = ascii ''E1'', name = ascii ''Ivan'', phone_number = ascii ''+79990000001'',
      skills = [], rating = 5, is_available = True\<rparr>"

definition example_order :: OrderInfo where
  "example_order =
     \<lparr>order_id = ascii ''ORD-1'', description = ascii ''delivery'', address = ascii ''Main 1'',
      datetime = ascii ''10:00'', payment = ascii ''500'', additional_info = None,
      required_skills = []\<rparr>"





text \<open>The agent after a call to the executor "E1" has started in the good world.\<close>

definition example_agent :: "int \<Rightarrow> AIAgent" where
  "example_agent turns =
     fst (call_executor (new_agent (example_config turns)) good_world example_executor
            example_order)"

section \<open>Properties of strings\<close>

lemma str_in_iff: "str_in w s \<longleftrightarrow> (\<exists>pre post. s = pre @ w @ post)"
proof (induction s)
  case Nil
  then show ?case by auto
next
  case (Cons c s)
  show ?case
  proof
    assume "str_in w (c # s)"
    then consider "prefix w (c # s)" | "str_in w s" by auto
    then show "\<exists>pre post. c # s = pre @ w @ post"
    proof cases
      case 1
      then obtain post where "c # s = w @ post" by (auto simp: prefix_def)
      then have "c # s = [] @ w @ post" by simp
      then show ?thesis by blast
    next
      case 2
      with Cons.IH obtain pre post where "s = pre @ w @ post" by blast
      then have "c # s = (c # pre) @ w @ post" by simp
      then show ?thesis by blast
    qed
  next
    assume "\<exists>pre post. c # s = pre @ w @ post"
    then obtain pre post where eq: "c # s = pre @ w @ post" by blast
    show "str_in w (c # s)"
    proof (cases pre)
      case Nil
      with eq have "prefix w (c # s)" by (simp add: prefix_def)
      then show ?thesis by simp
    next
      case (Cons d pre')
      with eq have "s = pre' @ w @ post" by simp
      with Cons.IH have "str_in w s" by blast
      then show ?thesis by simp
    qed
  qed
qed

lemma str_in_single: "str_in [c] s \<longleftrightarrow> c \<in> set s"
  by (induction s) auto

section \<open>Intent classification\<close>

lemmas analyze_defs = analyze_response_def str_lower_def lower_cp_def positive_words_def
  negative_words_def question_words_def ascii_def

text \<open>
  Claim C2. \<open>analyze_response\<close> is a keyword test on the lower-cased input with the
  precedence question, accept, decline, unclear and the confidences 0.8, 0.9, 0.9, 0.5.
  An input with an interrogative word, or with a question mark (code point 63), is a
  question; otherwise one with an affirmative and no negative word is an acceptance;
  otherwise one with a negative and no affirmative word is a refusal; otherwise, also when
  it has words of both lists, it is unclear. These four statements hold whatever
  \<open>str_lower\<close> makes of a code point. The four examples of the specification follow:
  "Da, khorosho, prinimayu", "Net, ne mogu, zanyat", "A skol'ko eto budet?" and
  "Nu navernoe".
\<close>

theorem analyze_response_precedence:
  fixes response :: str
  defines "low \<equiv> str_lower response"
  defines "is_question \<equiv> (\<exists>word\<in>set question_words. str_in word low) \<or> 63 \<in> set response"
  defines "is_positive \<equiv> (\<exists>word\<in>set positive_words. str_in word low)"
  defines "is_negative \<equiv> (\<exists>word\<in>set negative_words. str_in word low)"
  shows "(is_question \<longrightarrow> analyze_response response = \<lparr>intent = ''question'', confidence = 0.8\<rparr>)
     \<and> (\<not> is_question \<and> is_positive \<and> \<not> is_negative \<longrightarrow>
          analyze_response response = \<lparr>intent = ''accept'', confidence = 0.9\<rparr>)
     \<and> (\<not> is_question \<and> is_negative \<and> \<not> is_positive \<longrightarrow>
          analyze_response response = \<lparr>intent = ''decline'', confidence = 0.9\<rparr>)
     \<and> (\<not> is_question \<and> (is_positive \<longleftrightarrow> is_negative) \<longrightarrow>
          analyze_response response = \<lparr>intent = ''unclear'', confidence = 0.5\<rparr>)
     \<and> analyze_response [1044, 1072, 44, 32, 1093, 1086, 1088, 1086, 1096, 1086, 44, 32, 1087,
            1088, 1080, 1085, 1080, 1084, 1072, 1102] = \<lparr>intent = ''accept'', confidence = 0.9\<rparr>
     \<and> analyze_response [1053, 1077, 1090, 44, 32, 1085, 1077, 32, 1084, 1086, 1075, 1091, 44,
            32, 1079, 1072, 1085, 1103, 1090] = \<lparr>intent = ''decline'', confidence = 0.9\<rparr>
     \<and> analyze_response [1040, 32, 1089, 1082, 1086, 1083, 1100, 1082, 1086, 32, 1101, 1090,
            1086, 32, 1073, 1091, 1076, 1077, 1090, 63] = \<lparr>intent = ''question'', confidence = 0.8\<rparr>
     \<and> analyze_response [1053, 1091, 32, 1085, 1072, 1074, 1077, 1088, 1085, 1086, 1077]
          = \<lparr>intent = ''unclear'', confidence = 0.5\<rparr>"
proof -
  have general: "analyze_response response =
      (if is_question then \<lparr>intent = ''question'', confidence = 0.8\<rparr>
       else if is_positive \<and> \<not> is_negative then \<lparr>intent = ''accept'', confidence = 0.9\<rparr>
       else if is_negative \<and> \<not> is_positive then \<lparr>intent = ''decline'', confidence = 0.9\<rparr>
       else \<lparr>intent = ''unclear'', confidence = 0.5\<rparr>)"
    unfolding analyze_response_def Let_def is_question_def is_positive_def is_negative_def low_def
    by (simp add: list_ex_iff str_in_single ascii_def)
  have e1: "analyze_response [1044, 1072, 44, 32, 1093, 1086, 1088, 1086, 1096, 1086, 44, 32, 1087,
            1088, 1080, 1085, 1080, 1084, 1072, 1102] = \<lparr>intent = ''accept'', confidence = 0.9\<rparr>"
    by (simp add: analyze_defs)
  have e2: "analyze_response [1053, 1077, 1090, 44, 32, 1085, 1077, 32, 1084, 1086, 1075, 1091, 44,
            32, 1079, 1072, 1085, 1103, 1090] = \<lparr>intent = ''decline'', confidence = 0.9\<rparr>"
    by (simp add: analyze_defs)
  have e3: "analyze_response [1040, 32, 1089, 1082, 1086, 1083, 1100, 1082, 1086, 32, 1101, 1090,
            1086, 32, 1073, 1091, 1076, 1077, 1090, 63] = \<lparr>intent = ''question'', confidence = 0.8\<rparr>"
    by (simp add: analyze_defs)
  have e4: "analyze_response [1053, 1091, 32, 1085, 1072, 1074, 1077, 1088, 1085, 1086, 1077]
          = \<lparr>intent = ''unclear'', confidence = 0.5\<rparr>"
    by (simp add: analyze_defs)
  from general e1 e2 e3 e4 show ?thesis by auto
qed

text \<open>
  The four branches at "?", "da", "net" and "Da net" (an affirmative and a negative word).
\<close>

theorem analyze_response_precedence_witness:
  "analyze_response [63] = \<lparr>intent = ''question'', confidence = 0.8\<rparr>
   \<and> analyze_response [1076, 1072] = \<lparr>intent = ''accept'', confidence = 0.9\<rparr>
   \<and> analyze_response [1085, 1077, 1090] = \<lparr>intent = ''decline'', confidence = 0.9\<rparr>
   \<and> analyze_response [1044, 1072, 32, 1085, 1077, 1090] = \<lparr>intent = ''unclear'', confidence = 0.5\<rparr>"
  using analyze_response_precedence [of "[63]"]
    analyze_response_precedence [of "[1076, 1072]"]
    analyze_response_precedence [of "[1085, 1077, 1090]"]
    analyze_response_precedence [of "[1044, 1072, 32, 1085, 1077, 1090]"]
  by (simp add: str_lower_def lower_cp_def positive_words_def negative_words_def question_words_def)

text \<open>
  Claim C10. The keyword tests are substring tests on the lower-cased input, not tests on
  whole words. Let the lower-cased input hold no interrogative entry and the input no
  question mark. If the lower-cased input is \<open>pre @ word @ post\<close> for an affirmative entry
  \<open>word\<close>, whatever stands before and after it (letters of a longer word included), and
  holds no negative entry, the input is an acceptance with confidence 0.9; the same with
  the two lists exchanged gives a refusal with confidence 0.9.
\<close>

theorem substring_matching:
  fixes response :: str
  assumes "\<forall>word\<in>set question_words. \<not> str_in word (str_lower response)"
    and "63 \<notin> set response"
  shows "(\<forall>word pre post. word \<in> set positive_words \<and> str_lower response = pre @ word @ post
            \<and> (\<forall>n\<in>set negative_words. \<not> str_in n (str_lower response))
          \<longrightarrow> analyze_response response = \<lparr>intent = ''accept'', confidence = 0.9\<rparr>)
      \<and> (\<forall>word pre post. word \<in> set negative_words \<and> str_lower response = pre @ word @ post
            \<and> (\<forall>p\<in>set positive_words. \<not> str_in p (str_lower response))
          \<longrightarrow> analyze_response response = \<lparr>intent = ''decline'', confidence = 0.9\<rparr>)"
proof -
  have q: "\<not> (list_ex (\<lambda>word. str_in word (str_lower response)) question_words
            \<or> str_in (ascii ''?'') response)"
    using assms by (simp add: list_ex_iff str_in_single ascii_def)
  show ?thesis
  proof (intro conjI allI impI)
    fix word pre post
    assume h: "word \<in> set positive_words \<and> str_lower response = pre @ word @ post
            \<and> (\<forall>n\<in>set negative_words. \<not> str_in n (str_lower response))"
    then have "str_in word (str_lower response)" by (auto simp: str_in_iff)
    with h have "list_ex (\<lambda>word. str_in word (str_lower response)) positive_words"
      and "\<not> list_ex (\<lambda>word. str_in word (str_lower response)) negative_words"
      by (auto simp: list_ex_iff)
    with q show "analyze_response response = \<lparr>intent = ''accept'', confidence = 0.9\<rparr>"
      by (simp add: analyze_response_def Let_def)
  next
    fix word pre post
    assume h: "word \<in> set negative_words \<and> str_lower response = pre @ word @ post
            \<and> (\<forall>p\<in>set positive_words. \<not> str_in p (str_lower response))"
    then have "str_in word (str_lower response)" by (auto simp: str_in_iff)
    with h have "list_ex (\<lambda>word. str_in word (str_lower response)) negative_words"
      and "\<not> list_ex (\<lambda>word. str_in word (str_lower response)) positive_words"
      by (auto simp: list_ex_iff)
    with q show "analyze_response response = \<lparr>intent = ''decline'', confidence = 0.9\<rparr>"
      by (simp add: analyze_response_def Let_def)
  qed
qed

text \<open>
  "podarok" (a gift) holds "da" and "planeta" (a planet) holds "net", both inside a word.
\<close>

theorem substring_matching_witness:
  "analyze_response [1087, 1086, 1076, 1072, 1088, 1086, 1082] = \<lparr>intent = ''accept'', confidence = 0.9\<rparr>
   \<and> analyze_response [1087, 1083, 1072, 1085, 1077, 1090, 1072] = \<lparr>intent = ''decline'', confidence = 0.9\<rparr>"
proof -
  have a: "analyze_response [1087, 1086, 1076, 1072, 1088, 1086, 1082] = \<lparr>intent = ''accept'', confidence = 0.9\<rparr>"
  proof -
    have "str_lower [1087, 1086, 1076, 1072, 1088, 1086, 1082] = [1087, 1086] @ [1076, 1072] @ [1088, 1086, 1082]"
      by (simp add: str_lower_def lower_cp_def)
    moreover have "[1076, 1072] \<in> set positive_words" by (simp add: positive_words_def)
    moreover have "\<forall>n\<in>set negative_words. \<not> str_in n (str_lower [1087, 1086, 1076, 1072, 1088, 1086, 1082])"
      by (simp add: str_lower_def lower_cp_def negative_words_def)
    moreover have "\<forall>n\<in>set question_words. \<not> str_in n (str_lower [1087, 1086, 1076, 1072, 1088, 1086, 1082])"
      by (simp add: str_lower_def lower_cp_def question_words_def)
    moreover have "63 \<notin> set [1087, 1086, 1076, 1072, 1088, 1086, 1082::nat]" by simp
    ultimately show ?thesis
      using substring_matching [of "[1087, 1086, 1076, 1072, 1088, 1086, 1082]"] by blast
  qed
  have b: "analyze_response [1087, 1083, 1072, 1085, 1077, 1090, 1072] = \<lparr>intent = ''decline'', confidence = 0.9\<rparr>"
  proof -
    have "str_lower [1087, 1083, 1072, 1085, 1077, 1090, 1072] = [1087, 1083, 1072] @ [1085, 1077, 1090] @ [1072]"
      by (simp add: str_lower_def lower_cp_def)
    moreover have "[1085, 1077, 1090] \<in> set negative_words" by (simp add: negative_words_def)
    moreover have "\<forall>n\<in>set positive_words. \<not> str_in n (str_lower [1087, 1083, 1072, 1085, 1077, 1090, 1072])"
      by (simp add: str_lower_def lower_cp_def positive_words_def)
    moreover have "\<forall>n\<in>set question_words. \<not> str_in n (str_lower [1087, 1083, 1072, 1085, 1077, 1090, 1072])"
      by (simp add: str_lower_def lower_cp_def question_words_def)
    moreover have "63 \<notin> set [1087, 1083, 1072, 1085, 1077, 1090, 1072::nat]" by simp
    ultimately show ?thesis
      using substring_matching [of "[1087, 1083, 1072, 1085, 1077, 1090, 1072]"] by blast
  qed
  from a b show ?thesis by simp
qed

section \<open>Retrieval adapter\<close>

lemma search_failure:
  "\<not> kb_client (kb_initialize w kb) \<or> search_backend w query limit = Raised
     \<Longrightarrow> snd (search kb w query limit) = []"
  by (auto simp: search_def Let_def split: outcome.splits)

lemma get_context_empty:
  "snd (search kb w query 5) = [] \<Longrightarrow> snd (get_context_for_query kb w query n) = []"
  by (cases "search kb w query 5") (simp add: get_context_for_query_def)

text \<open>
  What the loop does keep: the parts it collects, without the separators, have at most
  three characters more than the budget.
\<close>

lemma combine_contents_budget:
  assumes "int (sum_list (map length parts)) = cur" and "cur \<le> m"
  shows "int (sum_list (map length (combine_contents m parts cur docs))) \<le> m + 3"
  using assms
proof (induction docs arbitrary: parts cur)
  case Nil
  then show ?case by simp
next
  case (Cons doc docs)
  show ?case
  proof (cases "cur + int (length (doc_content doc)) > m")
    case True
    with Cons.prems show ?thesis
      by (auto simp: Let_def ascii_def)
  next
    case False
    have "int (sum_list (map length (parts @ [doc_content doc])))
            = cur + int (length (doc_content doc))"
      using Cons.prems(1) by simp
    from Cons.IH [OF this] False show ?thesis
      by (simp add: Let_def)
  qed
qed

text \<open>
  Claim C8. The context returned by \<open>get_context_for_query\<close> is said to stay within
  \<open>max_context_length\<close>. The budget counts the contents only: the separators of the join and
  the dots appended to a cut document come on top. With the default budget of 2000 and two
  retrieved documents of 1500 characters each, the first is taken whole, the second is cut
  to 500 characters and given three dots, and the two are joined by two newlines: the
  context has 2005 characters.
\<close>

theorem context_exceeds_budget:
  "length (snd (get_context_for_query \<lparr>kb_client = True, kb_initialized = True\<rparr>
      (quiet_world\<lparr>search_backend := (\<lambda>query limit. Returned
          [\<lparr>doc_id = ascii ''1'', doc_content = replicate 1500 97, metadata = [], score = 0.9\<rparr>,
           \<lparr>doc_id = ascii ''2'', doc_content = replicate 1500 98, metadata = [], score = 0.8\<rparr>])\<rparr>)
      (ascii ''q'') 2000)) = 2005"
  by (simp add: get_context_for_query_def search_def kb_initialize_def quiet_world_def ascii_def)

section \<open>Session orchestrator: helper facts\<close>

lemma vox_initialize_calls [simp]:
  "active_calls (vox_initialize w tel) = active_calls tel"
  by (simp add: vox_initialize_def)

lemma start_call_none_calls:
  "snd (start_call tel w ex od cd) = None
     \<Longrightarrow> active_calls (fst (start_call tel w ex od cd)) = active_calls tel"
  by (auto simp: start_call_def Let_def split: if_splits outcome.splits)






lemma append_message_simps [simp]:
  "result (append_message s r t) = result s"
  "turn_count (append_message s r t) = turn_count s"
  "executor (append_message s r t) = executor s"
  "order (append_message s r t) = order s"
  "call_info (append_message s r t) = call_info s"
  "messages (dialogue_context (append_message s r t))
     = messages (dialogue_context s) @ [\<lparr>role = r, content = t\<rparr>]"
  by (simp_all add: append_message_def)

lemma result_update_same:
  "result x = r \<Longrightarrow> x\<lparr>result := r\<rparr> = x"
  "result x = r \<Longrightarrow> x\<lparr>turn_count := t, result := r\<rparr> = x\<lparr>turn_count := t\<rparr>"
  by (cases x, simp)+

lemma complete_session_sessions [simp]:
  "active_sessions (fst (complete_session ag w sid)) = active_sessions ag"
  by (simp add: complete_session_def Let_def split: option.splits prod.splits)

lemma complete_session_config [simp]:
  "config (fst (complete_session ag w sid)) = config ag"
  by (simp add: complete_session_def Let_def split: option.splits prod.splits)

text \<open>Whether the callback lets the completion go on.\<close>

lemma complete_session_raises:
  assumes "active_sessions ag sid = Some s"
  shows "snd (complete_session ag w sid) =
     (case on_call_completed ag of
        None \<Rightarrow> None
      | Some cb \<Rightarrow> if callback_returns w cb s then None else Some CallbackError)"
  using assms
  by (simp add: complete_session_def Let_def split: option.splits prod.splits)



text \<open>
  The turn as \<open>process_executor_response\<close> runs it for a known session, up to the
  completion: the agent with the session written back, and the outcome so far.
\<close>

lemma process_unfold:
  assumes "active_sessions ag sid = Some s"
  shows "\<exists>gc s3 reply.
     (let ag1 = ag\<lparr>gigachat := gc, active_sessions := (active_sessions ag)(sid \<mapsto> s3)\<rparr> in
        (process_executor_response ag w sid audio typed
           = (ag1, Inl GigaChatError)
         \<and> s3 = (append_message s ''user'' (heard_text w audio typed))
                   \<lparr>turn_count := turn_count s + 1\<rparr>
         \<and> intent (analyze_response (heard_text w audio typed)) \<noteq> ''accept''
         \<and> intent (analyze_response (heard_text w audio typed)) \<noteq> ''decline''
         \<and> \<not> max_dialogue_turns (config ag) \<le> turn_count s + 1
         \<and> \<not> gc_client (gigachat ag) \<and> \<not> gigachat_new w)
        \<or>
        (process_executor_response ag w sid audio typed
           = (if result s3 \<noteq> IN_PROGRESS
              then (case complete_session ag1 w sid of
                      (ag2, Some e) \<Rightarrow> (ag2, Inl e)
                    | (ag2, None) \<Rightarrow> (ag2, Inr (reply, text_to_speech w reply)))
              else (ag1, Inr (reply, text_to_speech w reply)))
         \<and> s3 = append_message
                  ((append_message s ''user'' (heard_text w audio typed))
                     \<lparr>turn_count := turn_count s + 1,
                      result :=
                        (if intent (analyze_response (heard_text w audio typed)) = ''accept''
                           then ACCEPTED
                         else if intent (analyze_response (heard_text w audio typed)) = ''decline''
                           then DECLINED
                         else if max_dialogue_turns (config ag) \<le> turn_count s + 1
                           then DECLINED
                         else result s)\<rparr>)
                  ''assistant'' reply
         \<and> (intent (analyze_response (heard_text w audio typed)) = ''accept''
              \<or> intent (analyze_response (heard_text w audio typed)) = ''decline''
              \<or> max_dialogue_turns (config ag) \<le> turn_count s + 1
              \<or> gc_client (gigachat ag) \<or> gigachat_new w)))"
proof -
  let ?i = "intent (analyze_response (heard_text w audio typed))"
  consider (acc) "?i = ''accept''"
    | (dec) "?i \<noteq> ''accept''" "?i = ''decline''"
    | (bud) "?i \<noteq> ''accept''" "?i \<noteq> ''decline''"
        "max_dialogue_turns (config ag) \<le> turn_count s + 1"
    | (gen) "?i \<noteq> ''accept''" "?i \<noteq> ''decline''"
        "\<not> max_dialogue_turns (config ag) \<le> turn_count s + 1"
    by blast
  then show ?thesis
  proof cases
    case acc
    show ?thesis
      apply (rule exI [of _ "gigachat ag"])
      apply (rule exI [of _ "append_message ((append_message s ''user'' (heard_text w audio typed))
                     \<lparr>turn_count := turn_count s + 1, result := ACCEPTED\<rparr>) ''assistant''
                     (accept_reply_head @ name (executor s) @ accept_reply_tail)"])
      apply (rule exI [of _ "accept_reply_head @ name (executor s) @ accept_reply_tail"])
      using assms acc
      apply (simp add: process_executor_response_def Let_def split: prod.splits option.splits)
      done
  next
    case dec
    show ?thesis
      apply (rule exI [of _ "gigachat ag"])
      apply (rule exI [of _ "append_message ((append_message s ''user'' (heard_text w audio typed))
                     \<lparr>turn_count := turn_count s + 1, result := DECLINED\<rparr>) ''assistant''
                     (decline_reply_head @ name (executor s) @ decline_reply_tail)"])
      apply (rule exI [of _ "decline_reply_head @ name (executor s) @ decline_reply_tail"])
      using assms dec
      apply (simp add: process_executor_response_def Let_def split: prod.splits option.splits)
      done
  next
    case bud
    show ?thesis
      apply (rule exI [of _ "gigachat ag"])
      apply (rule exI [of _ "append_message ((append_message s ''user'' (heard_text w audio typed))
                     \<lparr>turn_count := turn_count s + 1, result := DECLINED\<rparr>) ''assistant''
                     closing_reply"])
      apply (rule exI [of _ closing_reply])
      using assms bud
      apply (simp add: process_executor_response_def Let_def split: prod.splits option.splits)
      done
  next
    case gen
    let ?s1 = "(append_message s ''user'' (heard_text w audio typed))
                   \<lparr>turn_count := turn_count s + 1\<rparr>"
    obtain gc out where g: "generate_response (gigachat ag) w (dialogue_context ?s1) = (gc, out)"
      by (cases "generate_response (gigachat ag) w (dialogue_context ?s1)")
    show ?thesis
    proof (cases out)
      case (Inl e)
      with g have e: "e = GigaChatError" "\<not> gc_client (gigachat ag)" "\<not> gigachat_new w"
        "gc = gigachat ag"
        by (auto simp: generate_response_def Let_def split: if_splits chat_outcome.splits)
      show ?thesis
        apply (rule exI [of _ gc])
        apply (rule exI [of _ ?s1])
        apply (rule exI [of _ "[]"])
        using assms gen g Inl e
        apply (simp add: process_executor_response_def Let_def)
        done
    next
      case (Inr reply)
      with g have ok: "gc_client (gigachat ag) \<or> gigachat_new w"
        by (auto simp: generate_response_def Let_def split: if_splits)
      show ?thesis
        apply (rule exI [of _ gc])
        apply (rule exI [of _ "append_message ?s1 ''assistant'' reply"])
        apply (rule exI [of _ reply])
        using assms gen g Inr ok
        apply (simp add: process_executor_response_def Let_def result_update_same
            split: prod.splits option.splits)
        done
    qed
  qed
qed

lemma process_known:
  assumes "active_sessions ag sid = Some s"
  shows "\<exists>s'. active_sessions (fst (process_executor_response ag w sid audio typed)) sid = Some s'
     \<and> turn_count s' = turn_count s + 1
     \<and> executor s' = executor s \<and> order s' = order s
     \<and> (\<forall>other. other \<noteq> sid \<longrightarrow>
           active_sessions (fst (process_executor_response ag w sid audio typed)) other
             = active_sessions ag other)
     \<and> (case snd (process_executor_response ag w sid audio typed) of
          Inl GigaChatError \<Rightarrow>
             result s' = result s
             \<and> messages (dialogue_context s') = messages (dialogue_context s)
                  @ [\<lparr>role = ''user'', content = heard_text w audio typed\<rparr>]
             \<and> intent (analyze_response (heard_text w audio typed)) \<noteq> ''accept''
             \<and> intent (analyze_response (heard_text w audio typed)) \<noteq> ''decline''
             \<and> \<not> max_dialogue_turns (config ag) \<le> turn_count s + 1
        | Inl CallbackError \<Rightarrow>
             result s' =
               (if intent (analyze_response (heard_text w audio typed)) = ''accept'' then ACCEPTED
                else if intent (analyze_response (heard_text w audio typed)) = ''decline''
                  then DECLINED
                else if max_dialogue_turns (config ag) \<le> turn_count s + 1 then DECLINED
                else result s)
             \<and> (\<exists>reply. messages (dialogue_context s') = messages (dialogue_context s)
                  @ [\<lparr>role = ''user'', content = heard_text w audio typed\<rparr>,
                     \<lparr>role = ''assistant'', content = reply\<rparr>])
        | Inl ValueError \<Rightarrow> False
        | Inr (reply, sound) \<Rightarrow>
             result s' =
               (if intent (analyze_response (heard_text w audio typed)) = ''accept'' then ACCEPTED
                else if intent (analyze_response (heard_text w audio typed)) = ''decline''
                  then DECLINED
                else if max_dialogue_turns (config ag) \<le> turn_count s + 1 then DECLINED
                else result s)
             \<and> messages (dialogue_context s') = messages (dialogue_context s)
                  @ [\<lparr>role = ''user'', content = heard_text w audio typed\<rparr>,
                     \<lparr>role = ''assistant'', content = reply\<rparr>])"
proof -
  from process_unfold [OF assms, of w audio typed] obtain gc s3 reply where
    u: "(let ag1 = ag\<lparr>gigachat := gc, active_sessions := (active_sessions ag)(sid \<mapsto> s3)\<rparr> in
        (process_executor_response ag w sid audio typed
           = (ag1, Inl GigaChatError)
         \<and> s3 = (append_message s ''user'' (heard_text w audio typed))
                   \<lparr>turn_count := turn_count s + 1\<rparr>
         \<and> intent (analyze_response (heard_text w audio typed)) \<noteq> ''accept''
         \<and> intent (analyze_response (heard_text w audio typed)) \<noteq> ''decline''
         \<and> \<not> max_dialogue_turns (config ag) \<le> turn_count s + 1
         \<and> \<not> gc_client (gigachat ag) \<and> \<not> gigachat_new w)
        \<or>
        (process_executor_response ag w sid audio typed
           = (if result s3 \<noteq> IN_PROGRESS
              then (case complete_session ag1 w sid of
                      (ag2, Some e) \<Rightarrow> (ag2, Inl e)
                    | (ag2, None) \<Rightarrow> (ag2, Inr (reply, text_to_speech w reply)))
              else (ag1, Inr (reply, text_to_speech w reply)))
         \<and> s3 = append_message
                  ((append_message s ''user'' (heard_text w audio typed))
                     \<lparr>turn_count := turn_count s + 1,
                      result :=
                        (if intent (analyze_response (heard_text w audio typed)) = ''accept''
                           then ACCEPTED
                         else if intent (analyze_response (heard_text w audio typed)) = ''decline''
                           then DECLINED
                         else if max_dialogue_turns (config ag) \<le> turn_count s + 1
                           then DECLINED
                         else result s)\<rparr>)
                  ''assistant'' reply
         \<and> (intent (analyze_response (heard_text w audio typed)) = ''accept''
              \<or> intent (analyze_response (heard_text w audio typed)) = ''decline''
              \<or> max_dialogue_turns (config ag) \<le> turn_count s + 1
              \<or> gc_client (gigachat ag) \<or> gigachat_new w)))"
    by blast
  let ?ag1 = "ag\<lparr>gigachat := gc, active_sessions := (active_sessions ag)(sid \<mapsto> s3)\<rparr>"
  have k: "active_sessions ?ag1 sid = Some s3" by simp
  have cs: "active_sessions (fst (complete_session ?ag1 w sid)) = active_sessions ?ag1"
    by simp
  have cr: "snd (complete_session ?ag1 w sid) = None
            \<or> snd (complete_session ?ag1 w sid) = Some CallbackError"
    using complete_session_raises [OF k, of w] by (auto split: option.splits)
  obtain ag2 raised where c: "complete_session ?ag1 w sid = (ag2, raised)"
    by (cases "complete_session ?ag1 w sid")
  from cs c have cs': "active_sessions ag2 = active_sessions ?ag1" by simp
  from cr c have cr': "raised = None \<or> raised = Some CallbackError" by simp
  from u consider
    (stop) "process_executor_response ag w sid audio typed = (?ag1, Inl GigaChatError)"
      "s3 = (append_message s ''user'' (heard_text w audio typed))
                   \<lparr>turn_count := turn_count s + 1\<rparr>"
      "intent (analyze_response (heard_text w audio typed)) \<noteq> ''accept''"
      "intent (analyze_response (heard_text w audio typed)) \<noteq> ''decline''"
      "\<not> max_dialogue_turns (config ag) \<le> turn_count s + 1"
  | (go) "process_executor_response ag w sid audio typed
           = (if result s3 \<noteq> IN_PROGRESS
              then (case complete_session ?ag1 w sid of
                      (ag2, Some e) \<Rightarrow> (ag2, Inl e)
                    | (ag2, None) \<Rightarrow> (ag2, Inr (reply, text_to_speech w reply)))
              else (?ag1, Inr (reply, text_to_speech w reply)))"
      "s3 = append_message
                  ((append_message s ''user'' (heard_text w audio typed))
                     \<lparr>turn_count := turn_count s + 1,
                      result :=
                        (if intent (analyze_response (heard_text w audio typed)) = ''accept''
                           then ACCEPTED
                         else if intent (analyze_response (heard_text w audio typed)) = ''decline''
                           then DECLINED
                         else if max_dialogue_turns (config ag) \<le> turn_count s + 1
                           then DECLINED
                         else result s)\<rparr>)
                  ''assistant'' reply"
    unfolding Let_def by blast
  then show ?thesis
  proof cases
    case stop
    then show ?thesis by (intro exI [of _ s3]) simp
  next
    case go
    note p = go(1) and s3 = go(2)
    have True ..
    have p': "process_executor_response ag w sid audio typed
           = (if result s3 \<noteq> IN_PROGRESS
              then (case complete_session ?ag1 w sid of
                      (ag2, Some e) \<Rightarrow> (ag2, Inl e)
                    | (ag2, None) \<Rightarrow> (ag2, Inr (reply, text_to_speech w reply)))
              else (?ag1, Inr (reply, text_to_speech w reply)))"
      by (rule p)
    have f: "result s3 = (if intent (analyze_response (heard_text w audio typed)) = ''accept''
                           then ACCEPTED
                         else if intent (analyze_response (heard_text w audio typed)) = ''decline''
                           then DECLINED
                         else if max_dialogue_turns (config ag) \<le> turn_count s + 1
                           then DECLINED
                         else result s)"
      "turn_count s3 = turn_count s + 1" "executor s3 = executor s" "order s3 = order s"
      "messages (dialogue_context s3) = messages (dialogue_context s)
                  @ [\<lparr>role = ''user'', content = heard_text w audio typed\<rparr>,
                     \<lparr>role = ''assistant'', content = reply\<rparr>]"
      by (simp_all add: s3)
    show ?thesis
    proof (cases "result s3 \<noteq> IN_PROGRESS")
      case False
      with p have "process_executor_response ag w sid audio typed
                     = (?ag1, Inr (reply, text_to_speech w reply))" by simp
      with f show ?thesis by (intro exI [of _ s3]) simp
    next
      case True
      from cr' show ?thesis
      proof
        assume "raised = None"
        with p True c have "process_executor_response ag w sid audio typed
                     = (ag2, Inr (reply, text_to_speech w reply))" by simp
        with f cs' show ?thesis by (intro exI [of _ s3]) simp
      next
        assume "raised = Some CallbackError"
        with p True c have "process_executor_response ag w sid audio typed
                     = (ag2, Inl CallbackError)" by simp
        with f cs' show ?thesis by (intro exI [of _ s3]) auto
      qed
    qed
  qed
qed

text \<open>The result a turn leaves in the session, whatever the outcome of the call.\<close>

lemma process_result:
  assumes "active_sessions ag sid = Some s"
  shows "map_option result
           (active_sessions (fst (process_executor_response ag w sid audio typed)) sid) =
     Some (if intent (analyze_response (heard_text w audio typed)) = ''accept'' then ACCEPTED
           else if intent (analyze_response (heard_text w audio typed)) = ''decline''
             then DECLINED
           else if max_dialogue_turns (config ag) \<le> turn_count s + 1 then DECLINED
           else result s)"
proof (cases "snd (process_executor_response ag w sid audio typed)")
  case (Inl e)
  with process_known [OF assms, of w audio typed] show ?thesis
    by (cases e) auto
next
  case (Inr r)
  with process_known [OF assms, of w audio typed] show ?thesis
    by (cases r) auto
qed

lemma process_config [simp]:
  "config (fst (process_executor_response ag w sid audio typed)) = config ag"
proof (cases "active_sessions ag sid")
  case None
  then show ?thesis by (simp add: process_executor_response_def)
next
  case (Some s)
  from process_unfold [OF Some, of w audio typed] obtain gc s3 reply where
    "process_executor_response ag w sid audio typed
       = (ag\<lparr>gigachat := gc, active_sessions := (active_sessions ag)(sid \<mapsto> s3)\<rparr>,
          Inl GigaChatError)
     \<or> process_executor_response ag w sid audio typed
           = (if result s3 \<noteq> IN_PROGRESS
              then (case complete_session
                      (ag\<lparr>gigachat := gc,
                          active_sessions := (active_sessions ag)(sid \<mapsto> s3)\<rparr>) w sid of
                      (ag2, Some e) \<Rightarrow> (ag2, Inl e)
                    | (ag2, None) \<Rightarrow> (ag2, Inr (reply, text_to_speech w reply)))
              else (ag\<lparr>gigachat := gc,
                       active_sessions := (active_sessions ag)(sid \<mapsto> s3)\<rparr>,
                    Inr (reply, text_to_speech w reply)))"
    unfolding Let_def by blast
  moreover have "config (fst (complete_session
      (ag\<lparr>gigachat := gc, active_sessions := (active_sessions ag)(sid \<mapsto> s3)\<rparr>) w sid))
        = config ag"
    by simp
  ultimately show ?thesis
    by (cases "complete_session
      (ag\<lparr>gigachat := gc, active_sessions := (active_sessions ag)(sid \<mapsto> s3)\<rparr>) w sid")
       (auto split: option.splits if_splits)
qed

lemma process_returns:
  assumes "active_sessions ag sid = Some s"
    and "intent (analyze_response (heard_text w audio typed)) = ''accept''
         \<or> intent (analyze_response (heard_text w audio typed)) = ''decline''
         \<or> max_dialogue_turns (config ag) \<le> turn_count s + 1
         \<or> gc_client (gigachat ag) \<or> gigachat_new w"
    and "on_call_completed ag = None \<or> (\<forall>cb x. callback_returns w cb x)"
  shows "\<exists>reply sound. snd (process_executor_response ag w sid audio typed) = Inr (reply, sound)"
proof -
  from process_unfold [OF assms(1), of w audio typed] assms(2) obtain gc s3 reply where
    p: "process_executor_response ag w sid audio typed
           = (if result s3 \<noteq> IN_PROGRESS
              then (case complete_session
                      (ag\<lparr>gigachat := gc,
                          active_sessions := (active_sessions ag)(sid \<mapsto> s3)\<rparr>) w sid of
                      (ag2, Some e) \<Rightarrow> (ag2, Inl e)
                    | (ag2, None) \<Rightarrow> (ag2, Inr (reply, text_to_speech w reply)))
              else (ag\<lparr>gigachat := gc,
                       active_sessions := (active_sessions ag)(sid \<mapsto> s3)\<rparr>,
                    Inr (reply, text_to_speech w reply)))"
    unfolding Let_def by blast
  let ?ag1 = "ag\<lparr>gigachat := gc, active_sessions := (active_sessions ag)(sid \<mapsto> s3)\<rparr>"
  have k: "active_sessions ?ag1 sid = Some s3" by simp
  have "snd (complete_session ?ag1 w sid) = None"
    using complete_session_raises [OF k, of w] assms(3) by (auto split: option.splits)
  with p show ?thesis
    by (cases "complete_session ?ag1 w sid") (auto split: if_splits)
qed

lemma process_view:
  assumes "active_sessions ag sid = Some s"
    and "snd (process_executor_response ag w sid audio typed) = Inr r"
  shows "session_view (fst (process_executor_response ag w sid audio typed)) sid =
     Some (if intent (analyze_response (heard_text w audio typed)) = ''accept'' then ACCEPTED
           else if intent (analyze_response (heard_text w audio typed)) = ''decline''
             then DECLINED
           else if max_dialogue_turns (config ag) \<le> turn_count s + 1 then DECLINED
           else result s,
           turn_count s + 1, length (messages (dialogue_context s)) + 2)"
  using process_known [OF assms(1), of w audio typed] assms(2)
  by (cases r) (auto simp: session_view_def)

lemma session_viewD:
  "session_view ag sid = Some (res, n, k)
     \<Longrightarrow> \<exists>s. active_sessions ag sid = Some s \<and> result s = res \<and> turn_count s = n
            \<and> length (messages (dialogue_context s)) = k"
  by (auto simp: session_view_def)

lemma heard_typed [simp]: "heard_text w audio (Some t) = t"
  by (simp add: heard_text_def split: option.splits)


lemmas world_defs = good_world_def quiet_world_def example_config_def example_executor_def
  example_order_def

lemma example_agent_eval:
  "example_agent n =
     \<lparr>config = example_config n,
      gigachat = \<lparr>gc_client = False\<rparr>,
      telephony = \<lparr>vox_config = voximplant (example_config n), vox_api = True,
                   vox_initialized = True,
                   active_calls = [ascii ''s1'' \<mapsto>
                     \<lparr>call_id = ascii ''s1'',
                      call_phone_number = phone_number example_executor,
                      call_executor_id = executor_id example_executor,
                      executor_name = name example_executor,
                      status = ''initiated'', started_at = Some 5000000, ended_at = None,
                      duration_seconds = 0, call_result = None\<rparr>]\<rparr>,
      knowledge_base = \<lparr>kb_client = True, kb_initialized = True\<rparr>,
      active_sessions = [ascii ''s1'' \<mapsto>
         \<lparr>call_info = ascii ''s1'', executor = example_executor, order = example_order,
          dialogue_context = \<lparr>messages = [], order_info = Some (order_to_dict example_order),
             executor_info = Some [''id'' \<mapsto> PyStr (executor_id example_executor),
                                   ''name'' \<mapsto> PyStr (name example_executor)],
             knowledge_context = Some []\<rparr>,
          result = IN_PROGRESS, turn_count = 0\<rparr>],
      on_call_completed = None,
      trace = [StartCall example_executor]\<rparr>"
  by (simp add: example_agent_def call_executor_def new_agent_def get_context_for_query_def
      search_def kb_initialize_def start_call_def vox_initialize_def good_world_def
      example_config_def Let_def ascii_def)

lemma example_session:
  "active_sessions (example_agent n) (ascii ''s1'') =
     Some \<lparr>call_info = ascii ''s1'', executor = example_executor, order = example_order,
          dialogue_context = \<lparr>messages = [], order_info = Some (order_to_dict example_order),
             executor_info = Some [''id'' \<mapsto> PyStr (executor_id example_executor),
                                   ''name'' \<mapsto> PyStr (name example_executor)],
             knowledge_context = Some []\<rparr>,
          result = IN_PROGRESS, turn_count = 0\<rparr>"
  by (simp add: example_agent_eval)

lemma good_callbacks: "\<forall>cb x. callback_returns good_world cb x"
  by (simp add: good_world_def)

text \<open>"da" (yes) is an acceptance, "net" (no) a refusal, "Nu navernoe" is unclear.\<close>

lemma intent_da: "intent (analyze_response [1076, 1072]) = ''accept''"
  by (simp add: analyze_defs)

lemma intent_net: "intent (analyze_response [1085, 1077, 1090]) = ''decline''"
  by (simp add: analyze_defs)

lemma intent_nu: "intent (analyze_response [1053, 1091, 32, 1085, 1072, 1074, 1077, 1088,
    1085, 1086, 1077]) = ''unclear''"
  by (simp add: analyze_defs)

lemma example_view: "session_view (example_agent n) (ascii ''s1'') = Some (IN_PROGRESS, 0, 0)"
  by (simp add: session_view_def example_session)

lemma example_max [simp]: "max_dialogue_turns (config (example_agent n)) = n"
  by (simp add: example_agent_eval example_config_def)

lemma call_executor_new_session:
  assumes "snd (call_executor ag w ex ord) = Some sid"
  shows "session_view (fst (call_executor ag w ex ord)) sid = Some (IN_PROGRESS, 0, 0)"
  using assms
  by (auto simp: call_executor_def session_view_def Let_def split: prod.splits option.splits)

lemma example_call: "snd (call_executor (new_agent (example_config n)) good_world
    example_executor example_order) = Some (ascii ''s1'')"
  by (simp add: call_executor_def new_agent_def get_context_for_query_def
      search_def kb_initialize_def start_call_def vox_initialize_def good_world_def
      example_config_def Let_def ascii_def)

section \<open>Session orchestrator: the turn counter, call start and greeting\<close>

text \<open>
  Claim C4. Every call of \<open>process_executor_response\<close> for a session id that is in the
  session mapping leaves the session in the mapping with its turn counter increased by
  exactly one, whatever branch the turn takes (acceptance, refusal, exhausted budget,
  continuation, and also when generating the reply raises).
\<close>

theorem turn_count_increment:
  assumes "active_sessions ag sid = Some s"
  shows "\<exists>s'. active_sessions (fst (process_executor_response ag w sid audio typed)) sid = Some s'
           \<and> turn_count s' = turn_count s + 1"
  using assms process_known [of ag sid s w audio typed] by blast

theorem turn_count_increment_witness:
  "map_option turn_count (active_sessions (example_agent 10) (ascii ''s1'')) = Some 0
   \<and> map_option turn_count
       (active_sessions (fst (process_executor_response (example_agent 10) good_world
          (ascii ''s1'') None (Some [1076, 1072]))) (ascii ''s1'')) = Some 1"
proof -
  from turn_count_increment [OF example_session, of 10 good_world None "Some [1076, 1072]"]
  show ?thesis by (auto simp: example_session)
qed

text \<open>
  Claim C5. If \<open>start_call\<close> of the telephony adapter returns no call record, then
  \<open>call_executor\<close> returns none, and the session mapping is the one from before the call:
  no session is created. The calls the telephony client knows are unchanged as well.
\<close>

theorem call_executor_start_failure:
  assumes "snd (start_call (telephony ag) w ex (order_to_dict ord)
                  (agent_custom_data (config ag))) = None"
  shows "snd (call_executor ag w ex ord) = None
     \<and> active_sessions (fst (call_executor ag w ex ord)) = active_sessions ag
     \<and> active_calls (telephony (fst (call_executor ag w ex ord))) = active_calls (telephony ag)"
proof -
  obtain tel started where
    s: "start_call (telephony ag) w ex (order_to_dict ord) (agent_custom_data (config ag))
          = (tel, started)"
    by (cases "start_call (telephony ag) w ex (order_to_dict ord) (agent_custom_data (config ag))")
  with assms have n: "started = None" by simp
  have "active_calls tel = active_calls (telephony ag)"
    using start_call_none_calls [OF assms] s by simp
  with s n show ?thesis
    by (simp add: call_executor_def Let_def split: prod.splits)
qed

text \<open>
  The backend refuses the scenario while one session is open: the second call returns none
  and the mapping still holds that one session.
\<close>

theorem call_executor_start_failure_witness:
  "snd (start_call (telephony (example_agent 10)) quiet_world example_executor
          (order_to_dict example_order) (agent_custom_data (config (example_agent 10)))) = None
   \<and> snd (call_executor (example_agent 10) quiet_world example_executor example_order) = None
   \<and> active_sessions (fst (call_executor (example_agent 10) quiet_world example_executor
         example_order)) = active_sessions (example_agent 10)
   \<and> dom (active_sessions (example_agent 10)) = {ascii ''s1''}"
proof -
  have h: "snd (start_call (telephony (example_agent 10)) quiet_world example_executor
          (order_to_dict example_order) (agent_custom_data (config (example_agent 10)))) = None"
    by (simp add: example_agent_eval start_call_def vox_initialize_def quiet_world_def
        example_config_def)
  have d: "dom (active_sessions (example_agent 10)) = {ascii ''s1''}"
    by (simp add: example_agent_eval)
  from call_executor_start_failure [OF h] h d show ?thesis by simp
qed

text \<open>
  Claim C7. For a session id that is not in the mapping, \<open>generate_initial_greeting\<close>
  returns the text "Sessiya ne naydena" with no audio and leaves the agent as it is. For a
  known id it appends exactly one message, the greeting with the role of the agent, to the
  history of that session, leaves the result and the turn counter of the session alone,
  and changes no other session: the keys of the mapping are the same.
\<close>

theorem generate_initial_greeting_frame:
  "(active_sessions ag sid = None \<longrightarrow>
      generate_initial_greeting ag w sid = (ag, session_not_found_text, None))
   \<and> (\<forall>s. active_sessions ag sid = Some s \<longrightarrow>
        (\<exists>ag' greeting audio s'.
           generate_initial_greeting ag w sid = (ag', greeting, audio)
           \<and> greeting = gigachat_generate_initial_greeting (agent_name (config ag))
               (company_name (config ag)) (name (executor s))
               [''description'' \<mapsto> PyStr (description (order s)),
                ''address'' \<mapsto> PyStr (address (order s)),
                ''datetime'' \<mapsto> PyStr (datetime (order s)),
                ''payment'' \<mapsto> PyStr (payment (order s))]
           \<and> audio = text_to_speech w greeting
           \<and> active_sessions ag' sid = Some s'
           \<and> messages (dialogue_context s')
               = messages (dialogue_context s) @ [\<lparr>role = ''assistant'', content = greeting\<rparr>]
           \<and> result s' = result s
           \<and> turn_count s' = turn_count s
           \<and> dom (active_sessions ag') = dom (active_sessions ag)
           \<and> (\<forall>other. other \<noteq> sid \<longrightarrow> active_sessions ag' other = active_sessions ag other)))"
  by (auto simp: generate_initial_greeting_def Let_def)

text \<open>An unknown id, and the greeting of the session "s1".\<close>

theorem generate_initial_greeting_frame_witness:
  "generate_initial_greeting (example_agent 10) good_world (ascii ''zz'')
     = (example_agent 10, session_not_found_text, None)
   \<and> map_option (\<lambda>s. (map role (messages (dialogue_context s)), result s, turn_count s))
       (active_sessions (fst (generate_initial_greeting (example_agent 10) good_world
          (ascii ''s1''))) (ascii ''s1''))
     = Some ([''assistant''], IN_PROGRESS, 0)
   \<and> dom (active_sessions (fst (generate_initial_greeting (example_agent 10) good_world
        (ascii ''s1'')))) = {ascii ''s1''}"
proof -
  have unknown: "active_sessions (example_agent 10) (ascii ''zz'') = None"
    by (simp add: example_agent_eval ascii_def)
  have d: "dom (active_sessions (example_agent 10)) = {ascii ''s1''}"
    by (simp add: example_agent_eval)
  from generate_initial_greeting_frame [of "example_agent 10" "ascii ''zz''" good_world]
    generate_initial_greeting_frame [of "example_agent 10" "ascii ''s1''" good_world]
    unknown d
  show ?thesis by (auto simp: example_session)
qed

section \<open>Session orchestrator: the turn budget and terminal sessions\<close>

text \<open>
  Claim C3, as stated: once the turn counter has reached the configured maximum while the
  result is in progress, the next turn sets the result to declined whatever the intent of
  its input. The chain of \<open>process_executor_response\<close> tests the intent first and the
  turn counter third, so an acceptance on that turn is an acceptance. With a maximum of 0
  the new session "s1" has reached the maximum (counter 0) and is in progress; the answer
  "da" makes it accepted. The same holds with a maximum of 1, which the counter reaches on
  this very turn.
\<close>

theorem turn_budget_counterexample:
  "session_view (example_agent 0) (ascii ''s1'') = Some (IN_PROGRESS, 0, 0)
   \<and> max_dialogue_turns (config (example_agent 0)) = 0
   \<and> intent (analyze_response [1076, 1072]) = ''accept''
   \<and> session_view (fst (process_executor_response (example_agent 0) good_world (ascii ''s1'')
        None (Some [1076, 1072]))) (ascii ''s1'') = Some (ACCEPTED, 1, 2)
   \<and> session_view (fst (process_executor_response (example_agent 1) good_world (ascii ''s1'')
        None (Some [1076, 1072]))) (ascii ''s1'') = Some (ACCEPTED, 1, 2)"
proof -
  have r: "\<exists>reply sound. snd (process_executor_response (example_agent n) good_world
      (ascii ''s1'') None (Some [1076, 1072])) = Inr (reply, sound)" for n
    by (rule process_returns [OF example_session]) (simp_all add: intent_da good_callbacks)
  from r [of 0] obtain r0 where "snd (process_executor_response (example_agent 0) good_world
      (ascii ''s1'') None (Some [1076, 1072])) = Inr r0" by blast
  from process_view [OF example_session this]
  have a: "session_view (fst (process_executor_response (example_agent 0) good_world (ascii ''s1'')
        None (Some [1076, 1072]))) (ascii ''s1'') = Some (ACCEPTED, 1, 2)"
    by (simp add: intent_da)
  from r [of 1] obtain r1 where "snd (process_executor_response (example_agent 1) good_world
      (ascii ''s1'') None (Some [1076, 1072])) = Inr r1" by blast
  from process_view [OF example_session this]
  have b: "session_view (fst (process_executor_response (example_agent 1) good_world (ascii ''s1'')
        None (Some [1076, 1072]))) (ascii ''s1'') = Some (ACCEPTED, 1, 2)"
    by (simp add: intent_da)
  from a b show ?thesis by (simp add: example_view intent_da)
qed

text \<open>
  Claim C3, amended. If the turn counter, once increased for the turn being processed, is
  at least the configured maximum (in particular if it had reached the maximum before),
  that turn ends the session: the result is accepted when the input classifies as accept
  and declined in every other case (decline, question, unclear).
\<close>

theorem turn_budget_ends_session:
  assumes "active_sessions ag sid = Some s"
    and "max_dialogue_turns (config ag) \<le> turn_count s + 1"
  shows "map_option result
           (active_sessions (fst (process_executor_response ag w sid audio typed)) sid)
         = Some (if intent (analyze_response (heard_text w audio typed)) = ''accept''
                 then ACCEPTED else DECLINED)"
  using process_result [OF assms(1), of w audio typed] assms(2) by auto

text \<open>With a maximum of 1, the unclear answer "Nu navernoe" on the first turn is a refusal.\<close>

theorem turn_budget_ends_session_witness:
  "max_dialogue_turns (config (example_agent 1)) \<le> 0 + 1
   \<and> map_option turn_count (active_sessions (example_agent 1) (ascii ''s1'')) = Some 0
   \<and> map_option result (active_sessions (fst (process_executor_response (example_agent 1)
        good_world (ascii ''s1'') None (Some [1053, 1091, 32, 1085, 1072, 1074, 1077, 1088,
        1085, 1086, 1077]))) (ascii ''s1'')) = Some DECLINED"
proof -
  have h: "max_dialogue_turns (config (example_agent 1))
             \<le> turn_count \<lparr>call_info = ascii ''s1'', executor = example_executor, order = example_order,
          dialogue_context = \<lparr>messages = [], order_info = Some (order_to_dict example_order),
             executor_info = Some [''id'' \<mapsto> PyStr (executor_id example_executor),
                                   ''name'' \<mapsto> PyStr (name example_executor)],
             knowledge_context = Some []\<rparr>,
          result = IN_PROGRESS, turn_count = 0\<rparr> + 1"
    by simp
  from turn_budget_ends_session [OF example_session h, of good_world None
      "Some [1053, 1091, 32, 1085, 1072, 1074, 1077, 1088, 1085, 1086, 1077]"]
  show ?thesis by (simp add: intent_nu example_session)
qed

text \<open>
  Claim C1, as stated: the result moves at most once from in progress to a terminal value,
  and a call of \<open>process_executor_response\<close> for a terminal session processes no turn.
  The method tests only whether the session id is known. The session "s1" starts in
  progress with no message; the answer "da" makes it accepted after one turn and two
  messages; a further call with "net" is processed like any turn: two more messages, a
  second turn, and the result moves from accepted to declined.
\<close>

theorem terminal_session_counterexample:
  "session_view (example_agent 10) (ascii ''s1'') = Some (IN_PROGRESS, 0, 0)
   \<and> session_view (fst (process_executor_response (example_agent 10) good_world (ascii ''s1'')
        None (Some [1076, 1072]))) (ascii ''s1'') = Some (ACCEPTED, 1, 2)
   \<and> session_view (fst (process_executor_response
        (fst (process_executor_response (example_agent 10) good_world (ascii ''s1'')
           None (Some [1076, 1072])))
        good_world (ascii ''s1'') None (Some [1085, 1077, 1090]))) (ascii ''s1'')
      = Some (DECLINED, 2, 4)"
proof -
  let ?ag1 = "fst (process_executor_response (example_agent 10) good_world (ascii ''s1'')
        None (Some [1076, 1072]))"
  from process_returns [OF example_session, of good_world None "Some [1076, 1072]" 10]
  obtain r1 where "snd (process_executor_response (example_agent 10) good_world
      (ascii ''s1'') None (Some [1076, 1072])) = Inr r1"
    by (auto simp: intent_da good_callbacks)
  from process_view [OF example_session this]
  have a: "session_view ?ag1 (ascii ''s1'') = Some (ACCEPTED, 1, 2)"
    by (simp add: intent_da)
  from session_viewD [OF a] obtain s where
    s: "active_sessions ?ag1 (ascii ''s1'') = Some s" "result s = ACCEPTED" "turn_count s = 1"
       "length (messages (dialogue_context s)) = 2"
    by blast
  from process_returns [OF s(1), of good_world None "Some [1085, 1077, 1090]"]
  obtain r2 where "snd (process_executor_response ?ag1 good_world
      (ascii ''s1'') None (Some [1085, 1077, 1090])) = Inr r2"
    by (auto simp: intent_net good_callbacks)
  from process_view [OF s(1) this] s
  have b: "session_view (fst (process_executor_response ?ag1 good_world (ascii ''s1'') None
      (Some [1085, 1077, 1090]))) (ascii ''s1'') = Some (DECLINED, 2, 4)"
    by (simp add: intent_net)
  from a b show ?thesis by (simp add: example_view)
qed

text \<open>
  Claim C1, amended. The result of every session starts as in progress (with a turn counter
  of 0 and an empty history). \<open>process_executor_response\<close> has no guard for terminal
  sessions: every call for a known session, terminal or not, processes a turn. It appends
  the message of the caller and the reply of the agent (the message of the caller alone
  when generating the reply raises), increases the turn counter by one, and sets the
  result to accepted on an accept intent, to declined on a decline intent or when the turn
  budget is used up, and leaves it as it was otherwise. This holds as well when the
  completion callback raises at the end of the turn: both messages have been appended and
  the result has been set by then. Hence a terminal result never goes back to in
  progress, while it may move between accepted and declined.
\<close>

theorem terminal_sessions_still_processed:
  "(\<forall>new_id. snd (call_executor ag0 w0 ex ord) = Some new_id \<longrightarrow>
       session_view (fst (call_executor ag0 w0 ex ord)) new_id = Some (IN_PROGRESS, 0, 0))
   \<and> (\<forall>s. active_sessions ag sid = Some s \<longrightarrow>
        (\<exists>s'. active_sessions (fst (process_executor_response ag w sid audio typed)) sid = Some s'
           \<and> turn_count s' = turn_count s + 1
           \<and> (case snd (process_executor_response ag w sid audio typed) of
                Inl GigaChatError \<Rightarrow>
                  result s' = result s
                  \<and> messages (dialogue_context s') = messages (dialogue_context s)
                       @ [\<lparr>role = ''user'', content = heard_text w audio typed\<rparr>]
              | Inl CallbackError \<Rightarrow>
                  result s' =
                    (if intent (analyze_response (heard_text w audio typed)) = ''accept''
                       then ACCEPTED
                     else if intent (analyze_response (heard_text w audio typed)) = ''decline''
                       then DECLINED
                     else if max_dialogue_turns (config ag) \<le> turn_count s + 1 then DECLINED
                     else result s)
                  \<and> (\<exists>reply. messages (dialogue_context s') = messages (dialogue_context s)
                       @ [\<lparr>role = ''user'', content = heard_text w audio typed\<rparr>,
                          \<lparr>role = ''assistant'', content = reply\<rparr>])
              | Inl ValueError \<Rightarrow> False
              | Inr (reply, sound) \<Rightarrow>
                  result s' =
                    (if intent (analyze_response (heard_text w audio typed)) = ''accept''
                       then ACCEPTED
                     else if intent (analyze_response (heard_text w audio typed)) = ''decline''
                       then DECLINED
                     else if max_dialogue_turns (config ag) \<le> turn_count s + 1 then DECLINED
                     else result s)
                  \<and> messages (dialogue_context s') = messages (dialogue_context s)
                       @ [\<lparr>role = ''user'', content = heard_text w audio typed\<rparr>,
                          \<lparr>role = ''assistant'', content = reply\<rparr>])
           \<and> (result s \<noteq> IN_PROGRESS \<longrightarrow> result s' \<noteq> IN_PROGRESS)))"
proof (intro conjI allI impI)
  fix new_id
  assume "snd (call_executor ag0 w0 ex ord) = Some new_id"
  then show "session_view (fst (call_executor ag0 w0 ex ord)) new_id = Some (IN_PROGRESS, 0, 0)"
    by (rule call_executor_new_session)
next
  fix s
  assume known: "active_sessions ag sid = Some s"
  from process_known [OF known, of w audio typed] obtain s' where
    s': "active_sessions (fst (process_executor_response ag w sid audio typed)) sid = Some s'"
      "turn_count s' = turn_count s + 1"
    and c: "(case snd (process_executor_response ag w sid audio typed) of
          Inl GigaChatError \<Rightarrow>
             result s' = result s
             \<and> messages (dialogue_context s') = messages (dialogue_context s)
                  @ [\<lparr>role = ''user'', content = heard_text w audio typed\<rparr>]
             \<and> intent (analyze_response (heard_text w audio typed)) \<noteq> ''accept''
             \<and> intent (analyze_response (heard_text w audio typed)) \<noteq> ''decline''
             \<and> \<not> max_dialogue_turns (config ag) \<le> turn_count s + 1
        | Inl CallbackError \<Rightarrow>
             result s' =
               (if intent (analyze_response (heard_text w audio typed)) = ''accept'' then ACCEPTED
                else if intent (analyze_response (heard_text w audio typed)) = ''decline''
                  then DECLINED
                else if max_dialogue_turns (config ag) \<le> turn_count s + 1 then DECLINED
                else result s)
             \<and> (\<exists>reply. messages (dialogue_context s') = messages (dialogue_context s)
                  @ [\<lparr>role = ''user'', content = heard_text w audio typed\<rparr>,
                     \<lparr>role = ''assistant'', content = reply\<rparr>])
        | Inl ValueError \<Rightarrow> False
        | Inr (reply, sound) \<Rightarrow>
             result s' =
               (if intent (analyze_response (heard_text w audio typed)) = ''accept'' then ACCEPTED
                else if intent (analyze_response (heard_text w audio typed)) = ''decline''
                  then DECLINED
                else if max_dialogue_turns (config ag) \<le> turn_count s + 1 then DECLINED
                else result s)
             \<and> messages (dialogue_context s') = messages (dialogue_context s)
                  @ [\<lparr>role = ''user'', content = heard_text w audio typed\<rparr>,
                     \<lparr>role = ''assistant'', content = reply\<rparr>])"
    by blast
  have keep: "result s \<noteq> IN_PROGRESS \<longrightarrow> result s' \<noteq> IN_PROGRESS"
    using process_result [OF known, of w audio typed] s'(1) by (auto split: if_splits)
  have c': "(case snd (process_executor_response ag w sid audio typed) of
                Inl GigaChatError \<Rightarrow>
                  result s' = result s
                  \<and> messages (dialogue_context s') = messages (dialogue_context s)
                       @ [\<lparr>role = ''user'', content = heard_text w audio typed\<rparr>]
              | Inl CallbackError \<Rightarrow>
                  result s' =
                    (if intent (analyze_response (heard_text w audio typed)) = ''accept''
                       then ACCEPTED
                     else if intent (analyze_response (heard_text w audio typed)) = ''decline''
                       then DECLINED
                     else if max_dialogue_turns (config ag) \<le> turn_count s + 1 then DECLINED
                     else result s)
                  \<and> (\<exists>reply. messages (dialogue_context s') = messages (dialogue_context s)
                       @ [\<lparr>role = ''user'', content = heard_text w audio typed\<rparr>,
                          \<lparr>role = ''assistant'', content = reply\<rparr>])
              | Inl ValueError \<Rightarrow> False
              | Inr (reply, sound) \<Rightarrow>
                  result s' =
                    (if intent (analyze_response (heard_text w audio typed)) = ''accept''
                       then ACCEPTED
                     else if intent (analyze_response (heard_text w audio typed)) = ''decline''
                       then DECLINED
                     else if max_dialogue_turns (config ag) \<le> turn_count s + 1 then DECLINED
                     else result s)
                  \<and> messages (dialogue_context s') = messages (dialogue_context s)
                       @ [\<lparr>role = ''user'', content = heard_text w audio typed\<rparr>,
                          \<lparr>role = ''assistant'', content = reply\<rparr>])"
    using c by (auto split: sum.splits error.splits)
  from s' c' keep
  show "\<exists>s'. active_sessions (fst (process_executor_response ag w sid audio typed)) sid = Some s'
           \<and> turn_count s' = turn_count s + 1
           \<and> (case snd (process_executor_response ag w sid audio typed) of
                Inl GigaChatError \<Rightarrow>
                  result s' = result s
                  \<and> messages (dialogue_context s') = messages (dialogue_context s)
                       @ [\<lparr>role = ''user'', content = heard_text w audio typed\<rparr>]
              | Inl CallbackError \<Rightarrow>
                  result s' =
                    (if intent (analyze_response (heard_text w audio typed)) = ''accept''
                       then ACCEPTED
                     else if intent (analyze_response (heard_text w audio typed)) = ''decline''
                       then DECLINED
                     else if max_dialogue_turns (config ag) \<le> turn_count s + 1 then DECLINED
                     else result s)
                  \<and> (\<exists>reply. messages (dialogue_context s') = messages (dialogue_context s)
                       @ [\<lparr>role = ''user'', content = heard_text w audio typed\<rparr>,
                          \<lparr>role = ''assistant'', content = reply\<rparr>])
              | Inl ValueError \<Rightarrow> False
              | Inr (reply, sound) \<Rightarrow>
                  result s' =
                    (if intent (analyze_response (heard_text w audio typed)) = ''accept''
                       then ACCEPTED
                     else if intent (analyze_response (heard_text w audio typed)) = ''decline''
                       then DECLINED
                     else if max_dialogue_turns (config ag) \<le> turn_count s + 1 then DECLINED
                     else result s)
                  \<and> messages (dialogue_context s') = messages (dialogue_context s)
                       @ [\<lparr>role = ''user'', content = heard_text w audio typed\<rparr>,
                          \<lparr>role = ''assistant'', content = reply\<rparr>])
           \<and> (result s \<noteq> IN_PROGRESS \<longrightarrow> result s' \<noteq> IN_PROGRESS)"
    by blast
qed

text \<open>
  The session "s1" from its start, after the refusal "net", and after a further, unclear
  answer to the terminal session.
\<close>

theorem terminal_sessions_still_processed_witness:
  "session_view (example_agent 10) (ascii ''s1'') = Some (IN_PROGRESS, 0, 0)
   \<and> session_view (fst (process_executor_response (example_agent 10) good_world (ascii ''s1'')
        None (Some [1085, 1077, 1090]))) (ascii ''s1'') = Some (DECLINED, 1, 2)
   \<and> session_view (fst (process_executor_response
        (fst (process_executor_response (example_agent 10) good_world (ascii ''s1'')
           None (Some [1085, 1077, 1090])))
        good_world (ascii ''s1'') None
        (Some [1053, 1091, 32, 1085, 1072, 1074, 1077, 1088, 1085, 1086, 1077])))
        (ascii ''s1'') = Some (DECLINED, 2, 4)"
proof -
  let ?nu = "[1053, 1091, 32, 1085, 1072, 1074, 1077, 1088, 1085, 1086, 1077] :: str"
  let ?ag1 = "fst (process_executor_response (example_agent 10) good_world (ascii ''s1'')
        None (Some [1085, 1077, 1090]))"
  let ?ag2 = "fst (process_executor_response ?ag1 good_world (ascii ''s1'') None (Some ?nu))"
  note t1 = terminal_sessions_still_processed [of "new_agent (example_config 10)" good_world
      example_executor example_order "example_agent 10" "ascii ''s1''" good_world None
      "Some [1085, 1077, 1090]"]
  have start: "session_view (example_agent 10) (ascii ''s1'') = Some (IN_PROGRESS, 0, 0)"
    using t1 example_call [of 10] by (simp add: example_agent_def)
  from process_returns [OF example_session, of good_world None "Some [1085, 1077, 1090]" 10]
  obtain reply1 sound1 where r1: "snd (process_executor_response (example_agent 10) good_world
      (ascii ''s1'') None (Some [1085, 1077, 1090])) = Inr (reply1, sound1)"
    by (auto simp: intent_net good_callbacks)
  from t1 example_session [of 10] r1 obtain s1 where
    s1: "active_sessions ?ag1 (ascii ''s1'') = Some s1" "turn_count s1 = 1"
      "result s1 = DECLINED" "length (messages (dialogue_context s1)) = 2"
    by (auto simp: intent_net)
  then have a: "session_view ?ag1 (ascii ''s1'') = Some (DECLINED, 1, 2)"
    by (simp add: session_view_def)
  note t2 = terminal_sessions_still_processed [of "new_agent (example_config 10)" good_world
      example_executor example_order ?ag1 "ascii ''s1''" good_world None "Some ?nu"]
  from process_returns [OF s1(1), of good_world None "Some ?nu"]
  obtain reply2 sound2 where r2: "snd (process_executor_response ?ag1 good_world
      (ascii ''s1'') None (Some ?nu)) = Inr (reply2, sound2)"
    by (auto simp: good_world_def)
  from t2 s1 r2 obtain s2 where
    s2: "active_sessions ?ag2 (ascii ''s1'') = Some s2" "turn_count s2 = 2"
      "result s2 = DECLINED" "length (messages (dialogue_context s2)) = 4"
    by (auto simp: intent_nu)
  then have b: "session_view ?ag2 (ascii ''s1'') = Some (DECLINED, 2, 4)"
    by (simp add: session_view_def)
  from start a b show ?thesis by simp
qed

section \<open>Session orchestrator: completion of a session\<close>





section \<open>Session orchestrator: calling a list of executors\<close>















end
